theory Spec2Isabelle
  imports Complex_Main "HOL-Library.Word" "HOL-Library.FSet" "HOL-Library.Finite_Map"
begin

section \<open>Constants of fileTransfer.js\<close>

definition CHUNK_SIZE :: nat where
  "CHUNK_SIZE = 65536"

definition MAX_RETRY_COUNT :: nat where
  "MAX_RETRY_COUNT = 3"

definition RETRY_TIMEOUT :: nat where
  "RETRY_TIMEOUT = 3000"

section \<open>Data model\<close>

type_synonym byte = "8 word"

text \<open>
  A chunk payload as it travels through the code: an ArrayBuffer, or the JavaScript
  value \<open>undefined\<close> (what indexing past the stored chunks would give).
\<close>

datatype chunk_data = Undefined | ArrayBuffer "byte list"

datatype status = Processing | Sending | Receiving | Complete | Error | Cancelled | Aborted

text \<open>The File handed to \<open>sendFile\<close>: \<open>file.size\<close> is the length of its bytes.\<close>

record js_file =
  file_name :: string
  file_type :: string
  file_bytes :: "byte list"

definition size_of :: "js_file \<Rightarrow> nat" where
  "size_of f = length (file_bytes f)"

text \<open>\<open>file.slice(start, end)\<close>: the bytes from \<open>start\<close> up to, not including, \<open>end\<close>.\<close>

definition slice :: "js_file \<Rightarrow> nat \<Rightarrow> nat \<Rightarrow> byte list" where
  "slice f start end = take (end - start) (drop start (file_bytes f))"

text \<open>The metadata object built by the worker's \<open>processFile\<close> (lines 90-98).\<close>

record metadata =
  transferId :: string
  fileId :: string
  fileName :: string
  fileType :: string
  fileSize :: nat
  totalChunks :: nat
  timestamp :: nat

text \<open>The \<open>metadata\<close> sub-object of a file-chunk message: \<open>{fileName, totalChunks}\<close>.\<close>

record chunk_meta =
  cm_fileName :: string
  cm_totalChunks :: nat

text \<open>An entry of \<open>transfer.retries\<close>: \<open>{count, timeout}\<close>; \<open>timeout\<close> is a timer id.\<close>

record retry_info =
  count :: nat
  timeout :: nat

text \<open>
  An entry of \<open>this.transfers\<close>: \<open>{...metadata, status, ...}\<close>. A sending record has
  \<open>receiverId\<close>, \<open>sentChunks\<close>, \<open>acknowledgedChunks\<close> and \<open>retries\<close>; a receiving
  record has \<open>senderId\<close>, \<open>receivedChunks\<close> and \<open>missingChunks\<close>. The code reads the
  fields of one direction only behind a test of \<open>status\<close> that was set together with
  them, so one record carries both groups and the group of the other direction is empty.
  \<open>chunks\<close> is the property \<open>transfer.chunks\<close> that \<open>retryChunk\<close> reads: \<open>None\<close> is
  \<open>undefined\<close>. Neither the metadata object nor any assignment in the code provides it.
\<close>

record transfer = metadata +
  status :: status
  receiverId :: string
  sentChunks :: "nat fset"
  acknowledgedChunks :: "nat fset"
  retries :: "(nat, retry_info) fmap"
  senderId :: string
  receivedChunks :: "(nat, chunk_data) fmap"
  missingChunks :: "nat fset"
  chunks :: "(nat \<rightharpoonup> byte list) option"

text \<open>Messages the coordinator hands to \<open>networkManager\<close>.\<close>

datatype out_message =
    OutFileMetadata metadata string string
  | OutFileChunk string nat chunk_data bool chunk_meta string
  | OutFileMetadataAck string string
  | OutFileChunkAck string nat string string
  | OutFileTransferCancel string string

text \<open>Messages \<open>handleNetworkMessage\<close> receives, by the fields it reads of each type.\<close>

datatype in_message =
    InFileMetadata metadata string
  | InFileChunk string nat chunk_data chunk_meta
  | InFileChunkAck string nat string
  | InFileTransferCancel string
  | InOther

text \<open>Messages the main thread posts to the transfer worker.\<close>

datatype worker_request =
    ProcessFile string js_file string
  | ProcessChunk string chunk_data nat chunk_meta
  | AbortTransfer string

text \<open>
  Messages the transfer worker posts back. The progress percentages are floating-point
  roundings and are left out of \<open>ProgressUpdate\<close> and \<open>ChunkReceived\<close>.
\<close>

datatype worker_message =
    SendMetadata string metadata string
  | SendChunk string nat chunk_data bool string
  | ProgressUpdate string
  | TransferComplete string bool
  | TransferError string string
  | ChunkReceived string nat nat
  | ReceiveComplete string chunk_meta
  | TransferAborted string

text \<open>
  Calls of \<open>emitEvent\<close>. \<open>completeFileReceive\<close> reads \<open>fileType\<close> and \<open>fileSize\<close> off
  the chunk message's metadata, which has neither: \<open>None\<close> is \<open>undefined\<close>.
\<close>

datatype event =
    EvProgress string
  | EvComplete string bool
  | EvError string string
  | EvReceiveProgress string
  | EvFileReceived string string "string option" "nat option"
  | EvAborted string
  | EvCancelled string
  | EvIncomingFile string string nat string string

datatype timer_action = RetryChunk string nat string | DeleteTransfer string

datatype js_error = TypeError

text \<open>
  The state of the main thread: the \<open>FileTransferManager\<close> (\<open>transfers\<close>, whether
  \<open>transferWorker\<close> is set, the messages posted to it), the \<open>networkManager\<close>
  (\<open>connected\<close>, what was emitted on each channel), the pending \<open>setTimeout\<close> callbacks
  as (id, delay, action), and the log of \<open>emitEvent\<close> calls.
\<close>

record fstate =
  transfers :: "string \<rightharpoonup> transfer"
  transferWorker :: bool
  to_worker :: "worker_request list"
  connected :: bool
  tcp_out :: "out_message list"
  udp_out :: "out_message list"
  timers :: "(nat \<times> nat \<times> timer_action) list"
  last_timer :: nat
  events :: "event list"

section \<open>Network manager and timers\<close>

definition sendUdpMessage :: "out_message \<Rightarrow> fstate \<Rightarrow> bool \<times> fstate" where
  "sendUdpMessage m s =
     (if \<not> connected s then (False, s)
      else (True, s\<lparr>udp_out := udp_out s @ [m]\<rparr>))"

definition sendTcpMessage :: "out_message \<Rightarrow> fstate \<Rightarrow> bool \<times> fstate" where
  "sendTcpMessage m s =
     (if \<not> connected s then (False, s)
      else (True, s\<lparr>tcp_out := tcp_out s @ [m]\<rparr>))"

text \<open>\<open>setTimeout\<close> returns a fresh positive id; \<open>clearTimeout\<close> drops the pending callback.\<close>

definition setTimeout :: "timer_action \<Rightarrow> nat \<Rightarrow> fstate \<Rightarrow> nat \<times> fstate" where
  "setTimeout a d s =
     (let i = Suc (last_timer s)
      in (i, s\<lparr>timers := timers s @ [(i, d, a)], last_timer := i\<rparr>))"

definition clearTimeout :: "nat \<Rightarrow> fstate \<Rightarrow> fstate" where
  "clearTimeout i s = s\<lparr>timers := filter (\<lambda>t. fst t \<noteq> i) (timers s)\<rparr>"

definition emitEvent :: "event \<Rightarrow> fstate \<Rightarrow> fstate" where
  "emitEvent e s = s\<lparr>events := events s @ [e]\<rparr>"

definition postToWorker :: "worker_request \<Rightarrow> fstate \<Rightarrow> fstate" where
  "postToWorker r s = s\<lparr>to_worker := to_worker s @ [r]\<rparr>"

text \<open>Mutating the transfer object stored under a key.\<close>

definition set_transfer :: "string \<Rightarrow> transfer \<Rightarrow> fstate \<Rightarrow> fstate" where
  "set_transfer tid t s = s\<lparr>transfers := (transfers s)(tid \<mapsto> t)\<rparr>"

section \<open>Transfer coordinator (class FileTransferManager)\<close>

definition sendFileMetadata :: "string \<Rightarrow> metadata \<Rightarrow> string \<Rightarrow> fstate \<Rightarrow> fstate" where
  "sendFileMetadata tid md rid s =
     (let s1 = snd (sendTcpMessage (OutFileMetadata md tid rid) s)
      in set_transfer tid
           \<lparr>transferId = transferId md, fileId = fileId md, fileName = fileName md,
            fileType = fileType md, fileSize = fileSize md, totalChunks = totalChunks md,
            timestamp = timestamp md,
            status = Sending, receiverId = rid, sentChunks = {||},
            acknowledgedChunks = {||}, retries = fmempty,
            senderId = [], receivedChunks = fmempty, missingChunks = {||},
            chunks = None\<rparr> s1)"

definition sendFileChunk :: "string \<Rightarrow> nat \<Rightarrow> chunk_data \<Rightarrow> bool \<Rightarrow> string \<Rightarrow> fstate \<Rightarrow> fstate" where
  "sendFileChunk tid chunkIndex chunk isLast rid s =
     (case transfers s tid of
        None \<Rightarrow> s
      | Some t \<Rightarrow>
          if status t \<noteq> Sending then s
          else
            let t1 = t\<lparr>sentChunks := finsert chunkIndex (sentChunks t)\<rparr>;
                s1 = snd (sendUdpMessage
                       (OutFileChunk tid chunkIndex chunk isLast
                          \<lparr>cm_fileName = fileName t1, cm_totalChunks = totalChunks t1\<rparr> rid) s);
                (retryTimeout, s2) = setTimeout (RetryChunk tid chunkIndex rid) RETRY_TIMEOUT s1
            in set_transfer tid
                 (t1\<lparr>retries := fmupd chunkIndex \<lparr>count = 0, timeout = retryTimeout\<rparr> (retries t1)\<rparr>)
                 s2)"

text \<open>
  \<open>retryChunk\<close> runs as a timer callback. The count is incremented in the stored entry
  before the branch; each branch then builds its message from
  \<open>transfer.chunks[chunkIndex]\<close>, which throws a TypeError when \<open>transfer.chunks\<close> is
  \<open>undefined\<close>, before anything is sent or re-armed.
\<close>

definition retryChunk :: "string \<Rightarrow> nat \<Rightarrow> string \<Rightarrow> fstate \<Rightarrow> js_error option \<times> fstate" where
  "retryChunk tid chunkIndex rid s =
     (case transfers s tid of
        None \<Rightarrow> (None, s)
      | Some t \<Rightarrow>
          if status t \<noteq> Sending then (None, s)
          else
            (case fmlookup (retries t) chunkIndex of
               None \<Rightarrow> (None, s)
             | Some retryInfo \<Rightarrow>
                 if chunkIndex |\<in>| acknowledgedChunks t then (None, s)
                 else
                   let retryInfo1 = retryInfo\<lparr>count := count retryInfo + 1\<rparr>;
                       t1 = t\<lparr>retries := fmupd chunkIndex retryInfo1 (retries t)\<rparr>;
                       s1 = set_transfer tid t1 s;
                       msg = (\<lambda>cs. OutFileChunk tid chunkIndex
                                (case cs chunkIndex of None \<Rightarrow> Undefined | Some b \<Rightarrow> ArrayBuffer b)
                                (chunkIndex + 1 = totalChunks t1)
                                \<lparr>cm_fileName = fileName t1, cm_totalChunks = totalChunks t1\<rparr> rid)
                   in
                     if count retryInfo1 > MAX_RETRY_COUNT then
                       (case chunks t1 of
                          None \<Rightarrow> (Some TypeError, s1)
                        | Some cs \<Rightarrow> (None, snd (sendTcpMessage (msg cs) s1)))
                     else
                       (case chunks t1 of
                          None \<Rightarrow> (Some TypeError, s1)
                        | Some cs \<Rightarrow>
                            let s2 = snd (sendUdpMessage (msg cs) s1);
                                (tm, s3) = setTimeout (RetryChunk tid chunkIndex rid) RETRY_TIMEOUT s2
                            in (None, set_transfer tid
                                  (t1\<lparr>retries := fmupd chunkIndex (retryInfo1\<lparr>timeout := tm\<rparr>) (retries t1)\<rparr>)
                                  s3))))"

definition handleIncomingFileMetadata :: "metadata \<Rightarrow> string \<Rightarrow> fstate \<Rightarrow> fstate" where
  "handleIncomingFileMetadata md sid s =
     (let tid = transferId md;
          s1 = set_transfer tid
                 \<lparr>transferId = transferId md, fileId = fileId md, fileName = fileName md,
                  fileType = fileType md, fileSize = fileSize md, totalChunks = totalChunks md,
                  timestamp = timestamp md,
                  status = Receiving, receiverId = [], sentChunks = {||},
                  acknowledgedChunks = {||}, retries = fmempty,
                  senderId = sid, receivedChunks = fmempty, missingChunks = {||},
                  chunks = None\<rparr> s;
          s2 = emitEvent (EvIncomingFile tid (fileName md) (fileSize md) (fileType md) sid) s1
      in snd (sendTcpMessage (OutFileMetadataAck tid sid) s2))"

definition assembleFile :: "string \<Rightarrow> fstate \<Rightarrow> fstate" where
  "assembleFile tid s =
     (case transfers s tid of
        None \<Rightarrow> s
      | Some t \<Rightarrow>
          if status t \<noteq> Receiving then s
          else emitEvent (EvFileReceived tid (fileName t) (Some (fileType t)) (Some (fileSize t)))
                 (set_transfer tid (t\<lparr>status := Complete\<rparr>) s))"

definition handleIncomingFileChunk :: "string \<Rightarrow> nat \<Rightarrow> chunk_data \<Rightarrow> chunk_meta \<Rightarrow> fstate \<Rightarrow> fstate" where
  "handleIncomingFileChunk tid chunkIndex chunk cm s =
     (case transfers s tid of
        None \<Rightarrow> s
      | Some t \<Rightarrow>
          if status t \<noteq> Receiving then s
          else
            let t1 = t\<lparr>receivedChunks := fmupd chunkIndex chunk (receivedChunks t)\<rparr>;
                s1 = set_transfer tid t1 s;
                s2 = (if transferWorker s1
                      then postToWorker (ProcessChunk tid chunk chunkIndex cm) s1 else s1);
                s3 = snd (sendTcpMessage (OutFileChunkAck tid chunkIndex ''received'' (senderId t1)) s2)
            in if fcard (fmdom (receivedChunks t1)) = totalChunks t1
               then assembleFile tid s3 else s3)"

definition handleChunkAcknowledgment :: "string \<Rightarrow> nat \<Rightarrow> string \<Rightarrow> fstate \<Rightarrow> fstate" where
  "handleChunkAcknowledgment tid chunkIndex st s =
     (case transfers s tid of
        None \<Rightarrow> s
      | Some t \<Rightarrow>
          if status t \<noteq> Sending then s
          else if st = ''received'' then
            let t1 = t\<lparr>acknowledgedChunks := finsert chunkIndex (acknowledgedChunks t)\<rparr>;
                (t2, s1) =
                  (case fmlookup (retries t1) chunkIndex of
                     None \<Rightarrow> (t1, s)
                   | Some retryInfo \<Rightarrow>
                       if timeout retryInfo \<noteq> 0
                       then (t1\<lparr>retries := fmdrop chunkIndex (retries t1)\<rparr>,
                             clearTimeout (timeout retryInfo) s)
                       else (t1, s))
            in if fcard (acknowledgedChunks t2) = totalChunks t2
               then emitEvent (EvComplete tid True) (set_transfer tid (t2\<lparr>status := Complete\<rparr>) s1)
               else set_transfer tid t2 s1
          else s)"

definition completeFileReceive :: "string \<Rightarrow> chunk_meta \<Rightarrow> fstate \<Rightarrow> fstate" where
  "completeFileReceive tid cm s =
     (case transfers s tid of
        None \<Rightarrow> s
      | Some t \<Rightarrow>
          emitEvent (EvFileReceived tid (cm_fileName cm) None None)
            (set_transfer tid (t\<lparr>status := Complete\<rparr>) s))"

text \<open>The timer ids \<open>cancelTransfer\<close> clears: every truthy \<open>retry.timeout\<close> of the record.\<close>

definition retry_timeouts :: "transfer \<Rightarrow> nat fset" where
  "retry_timeouts t = ffilter (\<lambda>i. i \<noteq> 0) (timeout |`| fmran (retries t))"

definition clearTimeouts :: "nat fset \<Rightarrow> fstate \<Rightarrow> fstate" where
  "clearTimeouts is s = s\<lparr>timers := filter (\<lambda>t. fst t |\<notin>| is) (timers s)\<rparr>"

definition cancelTransfer :: "string \<Rightarrow> fstate \<Rightarrow> fstate" where
  "cancelTransfer tid s =
     (case transfers s tid of
        None \<Rightarrow> s
      | Some t \<Rightarrow>
          let s1 = (if status t = Sending then
                      snd (sendTcpMessage (OutFileTransferCancel tid (receiverId t))
                             (clearTimeouts (retry_timeouts t) s))
                    else if status t = Receiving then
                      snd (sendTcpMessage (OutFileTransferCancel tid (senderId t)) s)
                    else s);
              s2 = (if transferWorker s1 then postToWorker (AbortTransfer tid) s1 else s1);
              s3 = emitEvent (EvCancelled tid) (set_transfer tid (t\<lparr>status := Cancelled\<rparr>) s2)
          in snd (setTimeout (DeleteTransfer tid) 5000 s3))"

definition handleNetworkMessage :: "in_message \<Rightarrow> fstate \<Rightarrow> fstate" where
  "handleNetworkMessage message s =
     (case message of
        InFileMetadata md sid \<Rightarrow> handleIncomingFileMetadata md sid s
      | InFileChunk tid chunkIndex chunk cm \<Rightarrow> handleIncomingFileChunk tid chunkIndex chunk cm s
      | InFileChunkAck tid chunkIndex st \<Rightarrow> handleChunkAcknowledgment tid chunkIndex st s
      | InFileTransferCancel tid \<Rightarrow> cancelTransfer tid s
      | InOther \<Rightarrow> s)"

text \<open>\<open>transferWorker.onmessage\<close>: the main thread's handler of the worker's messages.\<close>

definition worker_onmessage :: "worker_message \<Rightarrow> fstate \<Rightarrow> fstate" where
  "worker_onmessage m s =
     (case m of
        SendMetadata tid md rid \<Rightarrow> sendFileMetadata tid md rid s
      | SendChunk tid chunkIndex chunk isLast rid \<Rightarrow> sendFileChunk tid chunkIndex chunk isLast rid s
      | ProgressUpdate tid \<Rightarrow> emitEvent (EvProgress tid) s
      | TransferComplete tid success \<Rightarrow> emitEvent (EvComplete tid success) s
      | TransferError tid err \<Rightarrow> emitEvent (EvError tid err) s
      | ChunkReceived tid chunkIndex n \<Rightarrow> emitEvent (EvReceiveProgress tid) s
      | ReceiveComplete tid cm \<Rightarrow> completeFileReceive tid cm s
      | TransferAborted tid \<Rightarrow> emitEvent (EvAborted tid) s)"

text \<open>\<open>sendFile\<close> on an initialised manager; \<open>fid\<close> is the generated \<open>fileId\<close> it returns.\<close>

definition sendFile :: "string \<Rightarrow> js_file \<Rightarrow> string \<Rightarrow> fstate \<Rightarrow> string \<times> fstate" where
  "sendFile fid f rid s =
     (if transferWorker s then (fid, postToWorker (ProcessFile fid f rid) s) else (fid, s))"

text \<open>A pending timer fires: it leaves the pending set and its callback runs.\<close>

definition fire_timer :: "nat \<Rightarrow> fstate \<Rightarrow> js_error option \<times> fstate" where
  "fire_timer i s =
     (case map_of (timers s) i of
        None \<Rightarrow> (None, s)
      | Some (d, a) \<Rightarrow>
          let s1 = clearTimeout i s
          in (case a of
                RetryChunk tid chunkIndex rid \<Rightarrow> retryChunk tid chunkIndex rid s1
              | DeleteTransfer tid \<Rightarrow> (None, s1\<lparr>transfers := (transfers s1)(tid := None)\<rparr>)))"

text \<open>
  A manager after \<open>init()\<close> with nothing in flight; the arguments say whether a Worker
  could be created and whether the network manager is connected.
\<close>

definition new_manager :: "bool \<Rightarrow> bool \<Rightarrow> fstate" where
  "new_manager worker conn =
     \<lparr>transfers = Map.empty, transferWorker = worker, to_worker = [], connected = conn,
      tcp_out = [], udp_out = [], timers = [], last_timer = 0, events = []\<rparr>"

section \<open>The transfer worker (the script built in initWorker)\<close>

text \<open>An entry of the worker's \<open>activeTransfers\<close>; \<open>sentChunks\<close> is a counter here.\<close>

record worker_transfer =
  w_fileId :: string
  w_fileName :: string
  w_fileType :: string
  w_fileSize :: nat
  w_receiverId :: string
  w_totalChunks :: nat
  w_sentChunks :: nat
  w_status :: status

type_synonym wstate = "string \<rightharpoonup> worker_transfer"

text \<open>
  What the worker reads from outside: the text of \<open>Date.now()\<close> appended to the file id,
  the \<open>Date.now()\<close> stored as timestamp, and for each chunk index whether the FileReader
  ends in \<open>onload\<close> (True) or in \<open>onerror\<close>.
\<close>

record env =
  now :: string
  stamp :: nat
  reads :: "nat \<Rightarrow> bool"

text \<open>\<open>Math.ceil(a / b)\<close> on sizes, which are exact in a double.\<close>

definition ceil_div :: "nat \<Rightarrow> nat \<Rightarrow> nat" where
  "ceil_div a b = (if a mod b = 0 then a div b else a div b + 1)"

text \<open>
  The chain \<open>readNextChunk\<close>, \<open>onload\<close>, \<open>readNextChunk\<close>, ... of \<open>readFileChunks\<close>,
  run until it stops, with no abort-transfer message handled in between. \<open>transfer\<close> is
  the object the closures captured; the result is that object and the messages posted.
\<close>

function readNextChunk ::
  "env \<Rightarrow> string \<Rightarrow> js_file \<Rightarrow> nat \<Rightarrow> worker_transfer \<Rightarrow> worker_transfer \<times> worker_message list" where
  "readNextChunk e tid f chunkIndex transfer =
     (let start = chunkIndex * CHUNK_SIZE;
          end = min (start + CHUNK_SIZE) (size_of f);
          chunk = slice f start end
      in if \<not> reads e chunkIndex then
           (transfer\<lparr>w_status := Error\<rparr>, [TransferError tid ''Error reading file''])
         else if w_status transfer = Aborted then (transfer, [])
         else
           let posted = [SendChunk tid chunkIndex (ArrayBuffer chunk)
                           (chunkIndex + 1 = w_totalChunks transfer) (w_receiverId transfer),
                         ProgressUpdate tid];
               transfer1 = transfer\<lparr>w_sentChunks := w_sentChunks transfer + 1\<rparr>
           in if chunkIndex + 1 < w_totalChunks transfer1 then
                (let (transfer2, rest) = readNextChunk e tid f (chunkIndex + 1) transfer1
                 in (transfer2, posted @ rest))
              else (transfer1\<lparr>w_status := Complete\<rparr>, posted @ [TransferComplete tid True]))"
  by pat_completeness auto
termination
  by (relation "measure (\<lambda>(e, tid, f, chunkIndex, transfer). w_totalChunks transfer - chunkIndex)") auto

definition readFileChunks :: "env \<Rightarrow> string \<Rightarrow> js_file \<Rightarrow> wstate \<Rightarrow> wstate \<times> worker_message list" where
  "readFileChunks e tid f w =
     (case w tid of
        None \<Rightarrow> (w, [])
      | Some transfer \<Rightarrow>
          if w_status transfer = Aborted then (w, [])
          else (let (transfer1, posted) = readNextChunk e tid f 0 transfer
                in (w(tid \<mapsto> transfer1), posted)))"

definition processFile :: "env \<Rightarrow> string \<Rightarrow> js_file \<Rightarrow> string \<Rightarrow> wstate \<Rightarrow> wstate \<times> worker_message list" where
  "processFile e fid f rid w =
     (let tid = fid @ ''-'' @ now e;
          n = ceil_div (size_of f) CHUNK_SIZE;
          w1 = w(tid \<mapsto> \<lparr>w_fileId = fid, w_fileName = file_name f, w_fileType = file_type f,
                          w_fileSize = size_of f, w_receiverId = rid, w_totalChunks = n,
                          w_sentChunks = 0, w_status = Processing\<rparr>);
          md = \<lparr>transferId = tid, fileId = fid, fileName = file_name f, fileType = file_type f,
                fileSize = size_of f, totalChunks = n, timestamp = stamp e\<rparr>;
          (w2, posted) = readFileChunks e tid f w1
      in (w2, SendMetadata tid md rid # posted))"

definition processChunk :: "string \<Rightarrow> chunk_data \<Rightarrow> nat \<Rightarrow> chunk_meta \<Rightarrow> worker_message list" where
  "processChunk tid chunk chunkIndex cm =
     ChunkReceived tid chunkIndex (cm_totalChunks cm) #
     (if chunkIndex + 1 = cm_totalChunks cm then [ReceiveComplete tid cm] else [])"

definition abortTransfer :: "string \<Rightarrow> wstate \<Rightarrow> wstate \<times> worker_message list" where
  "abortTransfer tid w =
     (case w tid of
        None \<Rightarrow> (w, [])
      | Some transfer \<Rightarrow> (w(tid := None), [TransferAborted tid]))"

text \<open>The worker's \<open>self.onmessage\<close>.\<close>

definition worker_handle :: "env \<Rightarrow> worker_request \<Rightarrow> wstate \<Rightarrow> wstate \<times> worker_message list" where
  "worker_handle e r w =
     (case r of
        ProcessFile fid f rid \<Rightarrow> processFile e fid f rid w
      | ProcessChunk tid chunk chunkIndex cm \<Rightarrow> (w, processChunk tid chunk chunkIndex cm)
      | AbortTransfer tid \<Rightarrow> abortTransfer tid w)"

section \<open>Main thread and worker together\<close>

definition deliver_worker :: "worker_message list \<Rightarrow> fstate \<Rightarrow> fstate" where
  "deliver_worker ms s = foldl (\<lambda>s m. worker_onmessage m s) s ms"

fun run_worker :: "env \<Rightarrow> worker_request list \<Rightarrow> fstate \<times> wstate \<Rightarrow> fstate \<times> wstate" where
  "run_worker e [] (s, w) = (s, w)"
| "run_worker e (r # rs) (s, w) =
     (let (w1, posted) = worker_handle e r w
      in run_worker e rs (deliver_worker posted s, w1))"

text \<open>
  The worker handles every request posted so far, in order, and the main thread handles
  every message the worker posts back, in order.
\<close>

definition pump :: "env \<Rightarrow> fstate \<times> wstate \<Rightarrow> fstate \<times> wstate" where
  "pump e p = run_worker e (to_worker (fst p)) ((fst p)\<lparr>to_worker := []\<rparr>, snd p)"

text \<open>A network message arrives and the worker traffic it causes is handled next.\<close>

definition receive :: "env \<Rightarrow> in_message \<Rightarrow> fstate \<times> wstate \<Rightarrow> fstate \<times> wstate" where
  "receive e m p = pump e (handleNetworkMessage m (fst p), snd p)"

definition receive_all :: "env \<Rightarrow> in_message list \<Rightarrow> fstate \<times> wstate \<Rightarrow> fstate \<times> wstate" where
  "receive_all e ms p = foldl (\<lambda>p m. receive e m p) p ms"

section \<open>Worker pool (threading.js, thread-pool.js)\<close>

text \<open>
  \<open>WorkerPool\<close> and \<open>ThreadPool\<close> have the same \<open>processQueue\<close>. \<open>dispatched\<close> logs
  the tasks for which a Worker was created, in order.
\<close>

record 'a pool =
  maxWorkers :: int
  activeWorkers :: int
  taskQueue :: "'a list"
  dispatched :: "'a list"

definition processQueue :: "'a pool \<Rightarrow> 'a pool" where
  "processQueue p =
     (case taskQueue p of
        [] \<Rightarrow> p
      | task # rest \<Rightarrow>
          if activeWorkers p \<ge> maxWorkers p then p
          else p\<lparr>taskQueue := rest, activeWorkers := activeWorkers p + 1,
                 dispatched := dispatched p @ [task]\<rparr>)"

definition runTask :: "'a \<Rightarrow> 'a pool \<Rightarrow> 'a pool" where
  "runTask task p = processQueue (p\<lparr>taskQueue := taskQueue p @ [task]\<rparr>)"

text \<open>
  The three listeners registered on each Worker. Settling the task's promise and
  \<open>worker.terminate()\<close> do not touch the pool's fields. Node emits \<open>exit\<close> with
  code 1 after an \<open>error\<close> and after \<open>terminate()\<close>.
\<close>

definition on_message :: "'a pool \<Rightarrow> 'a pool" where
  "on_message p = processQueue (p\<lparr>activeWorkers := activeWorkers p - 1\<rparr>)"

definition on_error :: "'a pool \<Rightarrow> 'a pool" where
  "on_error p = processQueue (p\<lparr>activeWorkers := activeWorkers p - 1\<rparr>)"

definition on_exit :: "int \<Rightarrow> 'a pool \<Rightarrow> 'a pool" where
  "on_exit code p =
     (if code \<noteq> 0 then processQueue (p\<lparr>activeWorkers := activeWorkers p - 1\<rparr>) else p)"

datatype 'a pool_event = Submit 'a | WorkerMessage | WorkerError | WorkerExit int

fun pool_step :: "'a pool \<Rightarrow> 'a pool_event \<Rightarrow> 'a pool" where
  "pool_step p (Submit task) = runTask task p"
| "pool_step p WorkerMessage = on_message p"
| "pool_step p WorkerError = on_error p"
| "pool_step p (WorkerExit code) = on_exit code p"

definition new_pool :: "int \<Rightarrow> 'a pool" where
  "new_pool n = \<lparr>maxWorkers = n, activeWorkers = 0, taskQueue = [], dispatched = []\<rparr>"

section \<open>Observations and example inputs\<close>

text \<open>The invariant of the data model for one transfer id.\<close>

definition ack_subset_sent :: "fstate \<Rightarrow> string \<Rightarrow> bool" where
  "ack_subset_sent s tid =
     (case transfers s tid of None \<Rightarrow> True | Some t \<Rightarrow> acknowledgedChunks t |\<subseteq>| sentChunks t)"

definition example_metadata :: "nat \<Rightarrow> nat \<Rightarrow> metadata" where
  "example_metadata sz n =
     \<lparr>transferId = ''t'', fileId = ''f'', fileName = ''a.txt'', fileType = ''text'',
      fileSize = sz, totalChunks = n, timestamp = 0\<rparr>"

definition example_meta :: "nat \<Rightarrow> chunk_meta" where
  "example_meta n = \<lparr>cm_fileName = ''a.txt'', cm_totalChunks = n\<rparr>"

definition example_env :: env where
  "example_env = \<lparr>now = ''7'', stamp = 7, reads = (\<lambda>i. True)\<rparr>"

definition example_file :: "byte list \<Rightarrow> js_file" where
  "example_file bs = \<lparr>file_name = ''a.txt'', file_type = ''text'', file_bytes = bs\<rparr>"

text \<open>A receiver holding chunk 0 of a three-chunk transfer.\<close>

definition buffered_receiver :: fstate where
  "buffered_receiver =
     handleNetworkMessage (InFileChunk ''t'' 0 (ArrayBuffer [1, 2]) (example_meta 3))
       (handleNetworkMessage (InFileMetadata (example_metadata 150000 3) ''alice'')
          (new_manager False True))"

text \<open>Metadata of another file under the same transfer id.\<close>

definition replacing_metadata :: metadata where
  "replacing_metadata =
     \<lparr>transferId = ''t'', fileId = ''g'', fileName = ''b.txt'', fileType = ''text'',
      fileSize = 70000, totalChunks = 2, timestamp = 9\<rparr>"

text \<open>A sender that has dispatched both chunks of a two-chunk transfer.\<close>

definition dispatched_sender :: fstate where
  "dispatched_sender =
     sendFileChunk ''t'' 1 (ArrayBuffer [3]) True ''bob''
       (sendFileChunk ''t'' 0 (ArrayBuffer [1, 2]) False ''bob''
          (sendFileMetadata ''t'' (example_metadata 100000 2) ''bob'' (new_manager True True)))"

text \<open>
  The same sender with a \<open>chunks\<close> property put into its record by hand. No run of
  the code produces such a record; it shows what \<open>retryChunk\<close> does past the read of
  \<open>transfer.chunks\<close>.
\<close>

definition keeping_chunks :: fstate where
  "keeping_chunks =
     (case transfers dispatched_sender ''t'' of
        None \<Rightarrow> dispatched_sender
      | Some t \<Rightarrow>
          set_transfer ''t'' (t\<lparr>chunks := Some [0 \<mapsto> [1, 2], 1 \<mapsto> [3]]\<rparr>) dispatched_sender)"

text \<open>\<open>sendFile\<close> of a three-byte file, worker and main thread run until idle, no
  acknowledgement received.\<close>

definition sender_done :: "bool \<Rightarrow> fstate \<times> wstate" where
  "sender_done conn =
     pump example_env
       (snd (sendFile ''f'' (example_file [1, 2, 3]) ''bob'' (new_manager True conn)), Map.empty)"

definition sent_one_chunk :: "bool \<Rightarrow> fstate" where
  "sent_one_chunk conn = fst (sender_done conn)"

text \<open>A receiver with a worker that gets the metadata of a three-chunk transfer and then
  the chunk with index 2.\<close>

definition last_chunk_first :: fstate where
  "last_chunk_first =
     fst (receive_all example_env
            [InFileMetadata (example_metadata 150000 3) ''alice'',
             InFileChunk ''t'' 2 (ArrayBuffer [9]) (example_meta 3)]
            (new_manager True True, Map.empty))"

text \<open>The chunk payloads the worker hands over for dispatch, with their indices, in order.\<close>

fun sent_chunks :: "worker_message list \<Rightarrow> (nat \<times> chunk_data) list" where
  "sent_chunks [] = []"
| "sent_chunks (SendChunk tid i c l rid # ms) = (i, c) # sent_chunks ms"
| "sent_chunks (m # ms) = sent_chunks ms"

text \<open>
  A receiver with a worker that gets the metadata of a one-chunk transfer of three
  bytes and then its only chunk.
\<close>

definition one_chunk_receiver :: fstate where
  "one_chunk_receiver =
     fst (receive_all example_env
            [InFileMetadata (example_metadata 3 1) ''alice'',
             InFileChunk ''t'' 0 (ArrayBuffer [1, 2, 3]) (example_meta 1)]
            (new_manager True True, Map.empty))"

text \<open>
  A receiver with a worker that gets the metadata of a one-chunk transfer and then a
  chunk with index 5.
\<close>

definition stray_index_receiver :: fstate where
  "stray_index_receiver =
     fst (receive_all example_env
            [InFileMetadata (example_metadata 3 1) ''alice'',
             InFileChunk ''t'' 5 (ArrayBuffer [1, 2, 3]) (example_meta 1)]
            (new_manager True True, Map.empty))"

text \<open>
  A receiver with a worker that gets the metadata of a two-chunk transfer, then chunk 1
  and then chunk 0.
\<close>

definition reordered_receiver :: "byte list \<Rightarrow> byte list \<Rightarrow> fstate" where
  "reordered_receiver b0 b1 =
     fst (receive_all example_env
            [InFileMetadata (example_metadata (length b0 + length b1) 2) ''alice'',
             InFileChunk ''t'' 1 (ArrayBuffer b1) (example_meta 2),
             InFileChunk ''t'' 0 (ArrayBuffer b0) (example_meta 2)]
            (new_manager True True, Map.empty))"

text \<open>
  The empty file: the metadata the worker posts for it, and a receiver with a worker
  that gets this metadata and then the one chunk the worker hands over.
\<close>

definition empty_file_metadata :: metadata where
  "empty_file_metadata =
     \<lparr>transferId = ''f-7'', fileId = ''f'', fileName = ''a.txt'', fileType = ''text'',
      fileSize = 0, totalChunks = 0, timestamp = 7\<rparr>"

definition empty_file_receiver :: fstate where
  "empty_file_receiver =
     fst (receive_all example_env
            [InFileMetadata empty_file_metadata ''alice'',
             InFileChunk ''f-7'' 0 (ArrayBuffer []) \<lparr>cm_fileName = ''a.txt'', cm_totalChunks = 0\<rparr>]
            (new_manager True True, Map.empty))"

text \<open>
  The concatenation of \<open>receivedChunks[0..totalChunks)\<close> in ascending index order.
  \<open>assembleFile\<close> itself does not build it.
\<close>

definition concat_received :: "transfer \<Rightarrow> byte list" where
  "concat_received t =
     concat (map (\<lambda>i. case fmlookup (receivedChunks t) i of
                         Some (ArrayBuffer b) \<Rightarrow> b | _ \<Rightarrow> [])
                 [0 ..< totalChunks t])"

text \<open>The bytes \<open>readNextChunk\<close> slices for chunk \<open>i\<close>, and the two messages posted for it.\<close>

definition chunk_bytes :: "js_file \<Rightarrow> nat \<Rightarrow> byte list" where
  "chunk_bytes f i = slice f (i * CHUNK_SIZE) (min (i * CHUNK_SIZE + CHUNK_SIZE) (size_of f))"

definition chunk_messages :: "string \<Rightarrow> js_file \<Rightarrow> nat \<Rightarrow> string \<Rightarrow> nat \<Rightarrow> worker_message list" where
  "chunk_messages tid f n rid i =
     [SendChunk tid i (ArrayBuffer (chunk_bytes f i)) (i + 1 = n) rid, ProgressUpdate tid]"

text \<open>
  Two conditions used in the proofs: a connected sender whose record for \<open>tid\<close> is
  \<open>sending\<close>, and a receiver with an idle worker queue that holds exactly the chunks
  below \<open>k\<close> of the file and is \<open>receiving\<close> unless all \<open>n > 0\<close> chunks are in.
\<close>

definition sending_as :: "fstate \<Rightarrow> string \<Rightarrow> string \<Rightarrow> nat \<Rightarrow> bool" where
  "sending_as x tid fn n =
     (connected x \<and> (\<exists>t. transfers x tid = Some t \<and> status t = Sending
                            \<and> fileName t = fn \<and> totalChunks t = n))"

definition holds_chunks :: "fstate \<Rightarrow> string \<Rightarrow> js_file \<Rightarrow> nat \<Rightarrow> nat \<Rightarrow> bool" where
  "holds_chunks x tid f n k =
     (to_worker x = [] \<and>
      (\<exists>t. transfers x tid = Some t \<and> totalChunks t = n
           \<and> (\<forall>j. fmlookup (receivedChunks t) j
                      = (if j < k then Some (ArrayBuffer (chunk_bytes f j)) else None))
           \<and> (status t = Receiving \<or> (0 < n \<and> n \<le> k))))"

section \<open>Evaluation rules\<close>

declare readNextChunk.simps [simp del]

lemmas coordinator_defs =
  sendFileMetadata_def sendFileChunk_def retryChunk_def handleIncomingFileMetadata_def
  assembleFile_def handleIncomingFileChunk_def handleChunkAcknowledgment_def
  completeFileReceive_def cancelTransfer_def handleNetworkMessage_def worker_onmessage_def
  sendFile_def fire_timer_def retry_timeouts_def clearTimeouts_def

lemmas plumbing_defs =
  sendUdpMessage_def sendTcpMessage_def setTimeout_def clearTimeout_def emitEvent_def
  postToWorker_def set_transfer_def Let_def fcard_finsert_if fcard_fempty

lemmas worker_defs =
  processFile_def readFileChunks_def processChunk_def abortTransfer_def worker_handle_def
  deliver_worker_def pump_def receive_def receive_all_def ceil_div_def size_of_def slice_def
  CHUNK_SIZE_def

lemmas example_defs =
  new_manager_def example_metadata_def example_meta_def example_env_def example_file_def
  buffered_receiver_def dispatched_sender_def sent_one_chunk_def sender_done_def
  last_chunk_first_def keeping_chunks_def one_chunk_receiver_def stray_index_receiver_def
  reordered_receiver_def empty_file_metadata_def empty_file_receiver_def

section \<open>Finite sets of chunk indices\<close>

lemma fcard_eq_all_below:
  assumes "\<forall>x. x |\<in>| A \<longrightarrow> x < n"
  shows "fcard A = n \<longleftrightarrow> (\<forall>j<n. j |\<in>| A)"
proof
  assume c: "fcard A = n"
  have sub: "fset A \<subseteq> {..<n}" using assms by auto
  have "card (fset A) = card {..<n}" using c by (simp add: fcard.rep_eq)
  with sub have "fset A = {..<n}" by (simp add: card_subset_eq)
  then show "\<forall>j<n. j |\<in>| A" by auto
next
  assume a: "\<forall>j<n. j |\<in>| A"
  have "fset A = {..<n}" using assms a by auto
  then show "fcard A = n" by (simp add: fcard.rep_eq)
qed

section \<open>Chunking and reassembly\<close>

lemma neg_div_nat:
  assumes "0 < b"
  shows "(- int a) div int b = (if a mod b = 0 then - int (a div b) else - int (a div b) - 1)"
proof -
  have nz: "int b \<noteq> 0" using assms by simp
  have md: "(int a mod int b = 0) = (a mod b = 0)"
    by (metis of_nat_mod of_nat_eq_0_iff)
  have dv: "int a div int b = int (a div b)"
    by (simp add: zdiv_int)
  from zdiv_zminus1_eq_if [OF nz, of "int a"] show ?thesis
    by (simp only: md dv)
qed

lemma ceil_div_ceiling:
  assumes "0 < b"
  shows "int (ceil_div a b) = \<lceil>real a / real b\<rceil>"
proof -
  have "\<lceil>real_of_int (int a) / real_of_int (int b)\<rceil> = - ((- int a) div int b)"
    by (rule ceiling_divide_eq_div)
  then have e: "\<lceil>real a / real b\<rceil> = - ((- int a) div int b)" by simp
  show ?thesis
    by (simp only: e neg_div_nat [OF assms] ceil_div_def split: if_splits) simp
qed

lemma slice_nth:
  "b \<le> size_of f \<Longrightarrow> slice f a b = map ((!) (file_bytes f)) [a ..< b]"
  by (auto simp: slice_def size_of_def list_eq_iff_nth_eq)

lemma chunk_bytes_take:
  "chunk_bytes f i = take CHUNK_SIZE (drop (i * CHUNK_SIZE) (file_bytes f))"
  by (auto simp: chunk_bytes_def slice_def size_of_def min_def)

lemma concat_chunks_take:
  "concat (map (\<lambda>i. take c (drop (i * c) xs)) [0 ..< n]) = take (n * c) xs"
proof (induction n)
  case 0
  show ?case by simp
next
  case (Suc n)
  have "take (n * c + c) xs = take (n * c) xs @ take c (drop (n * c) xs)"
    by (simp add: take_add)
  with Suc show ?case by (simp add: add.commute)
qed

lemma ceil_div_covers: "0 < b \<Longrightarrow> a \<le> ceil_div a b * b"
proof -
  assume b: "0 < b"
  show ?thesis
  proof (cases "a mod b = 0")
    case True
    then have "a div b * b = a" by (simp add: mod_eq_0_iff_dvd)
    with True show ?thesis by (simp add: ceil_div_def)
  next
    case False
    have lt: "a mod b < b" using b by simp
    have "a div b * b + a mod b = a" by simp
    with lt have "a \<le> a div b * b + b" by linarith
    with False show ?thesis by (simp add: ceil_div_def)
  qed
qed

lemma concat_chunk_bytes:
  "concat (map (chunk_bytes f) [0 ..< ceil_div (size_of f) CHUNK_SIZE]) = file_bytes f"
proof -
  have "concat (map (chunk_bytes f) [0 ..< ceil_div (size_of f) CHUNK_SIZE])
          = take (ceil_div (size_of f) CHUNK_SIZE * CHUNK_SIZE) (file_bytes f)"
    using concat_chunks_take [of CHUNK_SIZE "file_bytes f"]
    by (simp add: chunk_bytes_take [abs_def])
  moreover have "size_of f \<le> ceil_div (size_of f) CHUNK_SIZE * CHUNK_SIZE"
    by (rule ceil_div_covers) (simp add: CHUNK_SIZE_def)
  ultimately show ?thesis by (simp add: size_of_def)
qed

lemma readNextChunk_posts:
  assumes "\<forall>i. reads e i" and "w_status t \<noteq> Aborted"
  shows "snd (readNextChunk e tid f k t)
           = concat (map (chunk_messages tid f (w_totalChunks t) (w_receiverId t))
                       [k ..< max (Suc k) (w_totalChunks t)])
             @ [TransferComplete tid True]"
  using assms
proof (induction e tid f k t rule: readNextChunk.induct)
  case (1 e tid f chunkIndex transfer)
  let ?t1 = "transfer\<lparr>w_sentChunks := w_sentChunks transfer + 1\<rparr>"
  show ?case
  proof (cases "chunkIndex + 1 < w_totalChunks transfer")
    case True
    have ih: "snd (readNextChunk e tid f (chunkIndex + 1) ?t1)
                = concat (map (chunk_messages tid f (w_totalChunks transfer) (w_receiverId transfer))
                            [Suc chunkIndex ..< w_totalChunks transfer])
                  @ [TransferComplete tid True]"
      using "1.IH" [OF refl refl refl _ _ refl refl] "1.prems" True
      by (simp add: max_def)
    then have ih':
      "snd (readNextChunk e tid f (Suc chunkIndex)
              (transfer\<lparr>w_sentChunks := Suc (w_sentChunks transfer)\<rparr>))
         = concat (map (chunk_messages tid f (w_totalChunks transfer) (w_receiverId transfer))
                     [Suc chunkIndex ..< w_totalChunks transfer])
           @ [TransferComplete tid True]"
      by simp
    have up: "[chunkIndex ..< w_totalChunks transfer]
                = chunkIndex # [Suc chunkIndex ..< w_totalChunks transfer]"
      using True by (simp add: upt_conv_Cons)
    have mx: "max (Suc chunkIndex) (w_totalChunks transfer) = w_totalChunks transfer"
      using True by simp
    show ?thesis
      using "1.prems" True
      by (subst readNextChunk.simps, subst mx, subst up)
         (simp add: Let_def split_beta ih' chunk_messages_def chunk_bytes_def)
  next
    case False
    have up: "[chunkIndex ..< max (Suc chunkIndex) (w_totalChunks transfer)] = [chunkIndex]"
      using False by (simp add: max_def)
    show ?thesis
      using "1.prems" False
      by (subst readNextChunk.simps)
         (simp add: Let_def up chunk_messages_def chunk_bytes_def)
  qed
qed

lemma processFile_posts:
  assumes "\<forall>i. reads e i"
  shows "snd (processFile e fid f rid w)
           = SendMetadata (fid @ ''-'' @ now e)
               \<lparr>transferId = fid @ ''-'' @ now e, fileId = fid, fileName = file_name f,
                fileType = file_type f, fileSize = size_of f,
                totalChunks = ceil_div (size_of f) CHUNK_SIZE, timestamp = stamp e\<rparr> rid
             # concat (map (chunk_messages (fid @ ''-'' @ now e) f (ceil_div (size_of f) CHUNK_SIZE) rid)
                         [0 ..< max 1 (ceil_div (size_of f) CHUNK_SIZE)])
             @ [TransferComplete (fid @ ''-'' @ now e) True]"
proof -
  let ?t = "\<lparr>w_fileId = fid, w_fileName = file_name f, w_fileType = file_type f,
             w_fileSize = size_of f, w_receiverId = rid,
             w_totalChunks = ceil_div (size_of f) CHUNK_SIZE,
             w_sentChunks = 0, w_status = Processing\<rparr>"
  have "w_status ?t \<noteq> Aborted" by simp
  from readNextChunk_posts [OF assms this, of "fid @ ''-'' @ now e" f 0]
  show ?thesis
    by (simp add: processFile_def readFileChunks_def Let_def split_beta)
qed

lemma deliver_worker_append:
  "deliver_worker (ms @ ns) x = deliver_worker ns (deliver_worker ms x)"
  by (simp add: deliver_worker_def)

lemma deliver_chunk_message:
  assumes "sending_as x tid fn n"
  shows "sending_as (deliver_worker (chunk_messages tid f m rid i) x) tid fn n
       \<and> tcp_out (deliver_worker (chunk_messages tid f m rid i) x) = tcp_out x
       \<and> udp_out (deliver_worker (chunk_messages tid f m rid i) x)
           = udp_out x @ [OutFileChunk tid i (ArrayBuffer (chunk_bytes f i)) (i + 1 = m)
                            \<lparr>cm_fileName = fn, cm_totalChunks = n\<rparr> rid]"
  using assms
  by (auto simp: sending_as_def deliver_worker_def chunk_messages_def worker_onmessage_def
        sendFileChunk_def sendUdpMessage_def setTimeout_def emitEvent_def set_transfer_def Let_def)

lemma deliver_chunk_messages:
  assumes "sending_as x tid fn n"
  shows "sending_as (deliver_worker (concat (map (chunk_messages tid f m rid) is)) x) tid fn n
       \<and> tcp_out (deliver_worker (concat (map (chunk_messages tid f m rid) is)) x) = tcp_out x
       \<and> udp_out (deliver_worker (concat (map (chunk_messages tid f m rid) is)) x)
           = udp_out x @ map (\<lambda>i. OutFileChunk tid i (ArrayBuffer (chunk_bytes f i)) (i + 1 = m)
                                    \<lparr>cm_fileName = fn, cm_totalChunks = n\<rparr> rid) is"
  using assms
proof (induction "is" arbitrary: x)
  case Nil
  then show ?case by (simp add: deliver_worker_def)
next
  case (Cons i "is")
  note one = deliver_chunk_message [OF Cons.prems, of f m rid i]
  from one have s1: "sending_as (deliver_worker (chunk_messages tid f m rid i) x) tid fn n"
    by simp
  from Cons.IH [OF s1] one show ?case
    by (simp add: deliver_worker_append)
qed

lemma sender_dispatches:
  assumes rd: "\<forall>i. reads e i" and cn: "connected s" and wk: "transferWorker s"
      and idle: "to_worker s = []"
  shows "tcp_out (fst (pump e (snd (sendFile fid f rid s), w)))
           = tcp_out s
             @ [OutFileMetadata
                  \<lparr>transferId = fid @ ''-'' @ now e, fileId = fid, fileName = file_name f,
                   fileType = file_type f, fileSize = size_of f,
                   totalChunks = ceil_div (size_of f) CHUNK_SIZE, timestamp = stamp e\<rparr>
                  (fid @ ''-'' @ now e) rid]
       \<and> udp_out (fst (pump e (snd (sendFile fid f rid s), w)))
           = udp_out s
             @ map (\<lambda>i. OutFileChunk (fid @ ''-'' @ now e) i (ArrayBuffer (chunk_bytes f i))
                           (i + 1 = ceil_div (size_of f) CHUNK_SIZE)
                           \<lparr>cm_fileName = file_name f,
                            cm_totalChunks = ceil_div (size_of f) CHUNK_SIZE\<rparr> rid)
                 [0 ..< max 1 (ceil_div (size_of f) CHUNK_SIZE)]"
proof -
  let ?tid = "fid @ ''-'' @ now e"
  let ?n = "ceil_div (size_of f) CHUNK_SIZE"
  let ?md = "\<lparr>transferId = ?tid, fileId = fid, fileName = file_name f,
              fileType = file_type f, fileSize = size_of f,
              totalChunks = ?n, timestamp = stamp e\<rparr>"
  let ?x = "(postToWorker (ProcessFile fid f rid) s)\<lparr>to_worker := []\<rparr>"
  let ?x1 = "sendFileMetadata ?tid ?md rid ?x"
  let ?cs = "concat (map (chunk_messages ?tid f ?n rid) [0 ..< max 1 ?n])"
  let ?x2 = "deliver_worker ?cs ?x1"
  have run: "fst (pump e (snd (sendFile fid f rid s), w))
               = deliver_worker (snd (processFile e fid f rid w)) ?x"
    using wk idle
    by (simp add: pump_def sendFile_def postToWorker_def worker_handle_def split_beta)
  have posted: "deliver_worker (snd (processFile e fid f rid w)) ?x
                  = emitEvent (EvComplete ?tid True) ?x2"
    by (simp add: processFile_posts [OF rd] deliver_worker_append)
       (simp add: deliver_worker_def worker_onmessage_def)
  have x1: "sending_as ?x1 ?tid (file_name f) ?n"
    and tcp1: "tcp_out ?x1 = tcp_out s @ [OutFileMetadata ?md ?tid rid]"
    and udp1: "udp_out ?x1 = udp_out s"
    using cn
    by (simp_all add: sending_as_def sendFileMetadata_def sendTcpMessage_def set_transfer_def
          postToWorker_def)
  note x2 = deliver_chunk_messages [OF x1, of f ?n rid "[0 ..< max 1 ?n]"]
  have tcp: "tcp_out (fst (pump e (snd (sendFile fid f rid s), w)))
               = tcp_out s @ [OutFileMetadata ?md ?tid rid]"
    using x2 tcp1 by (simp add: run posted emitEvent_def)
  have udp: "udp_out (fst (pump e (snd (sendFile fid f rid s), w)))
               = udp_out s @ map (\<lambda>i. OutFileChunk ?tid i (ArrayBuffer (chunk_bytes f i)) (i + 1 = ?n)
                                        \<lparr>cm_fileName = file_name f, cm_totalChunks = ?n\<rparr> rid)
                               [0 ..< max 1 ?n]"
    using x2 udp1 by (simp add: run posted emitEvent_def)
  show ?thesis by (intro conjI tcp udp)
qed

lemma fcard_below:
  assumes "\<forall>j. j |\<in>| A \<longleftrightarrow> j < k"
  shows "fcard A = k"
proof -
  have "\<forall>x. x |\<in>| A \<longrightarrow> x < k" using assms by simp
  from fcard_eq_all_below [OF this] assms show ?thesis by simp
qed

lemma receive_metadata_holds:
  assumes "to_worker r = []" and "transferId md = tid" and "totalChunks md = n"
  shows "\<exists>x. receive e (InFileMetadata md sid) (r, v) = (x, v) \<and> holds_chunks x tid f n 0"
  using assms
  by (simp add: receive_def pump_def handleNetworkMessage_def handleIncomingFileMetadata_def
        holds_chunks_def sendTcpMessage_def emitEvent_def set_transfer_def Let_def)

lemma receive_chunk_holds:
  assumes h: "holds_chunks x tid f n k" and k: "k < max 1 n"
  shows "\<exists>x'. receive e (InFileChunk tid k (ArrayBuffer (chunk_bytes f k))
                             \<lparr>cm_fileName = fn, cm_totalChunks = n\<rparr>) (x, v) = (x', v)
              \<and> holds_chunks x' tid f n (Suc k)"
proof -
  from h obtain t where idle: "to_worker x = []" and tr: "transfers x tid = Some t"
    and tc: "totalChunks t = n"
    and lk: "\<forall>j. fmlookup (receivedChunks t) j
                  = (if j < k then Some (ArrayBuffer (chunk_bytes f j)) else None)"
    and st': "status t = Receiving \<or> (0 < n \<and> n \<le> k)"
    by (auto simp: holds_chunks_def)
  from st' k have st: "status t = Receiving" by auto
  have mem: "\<forall>j. j |\<in>| finsert k (fmdom (receivedChunks t)) \<longleftrightarrow> j < Suc k"
    using lk by (auto simp: fmlookup_dom_iff less_Suc_eq)
  have card: "fcard (finsert k (fmdom (receivedChunks t))) = Suc k"
    by (rule fcard_below [OF mem])
  show ?thesis
    using idle tr tc st card k lk
    by (cases "transferWorker x")
       (auto simp: receive_def pump_def handleNetworkMessage_def handleIncomingFileChunk_def
          assembleFile_def completeFileReceive_def worker_handle_def processChunk_def
          deliver_worker_def worker_onmessage_def holds_chunks_def sendTcpMessage_def
          postToWorker_def emitEvent_def set_transfer_def Let_def less_Suc_eq)
qed

lemma receive_all_append:
  "receive_all e (ms @ ns) p = receive_all e ns (receive_all e ms p)"
  by (simp add: receive_all_def)

lemma receive_chunks_hold:
  assumes "holds_chunks x tid f n 0" and "m \<le> max 1 n"
  shows "\<exists>x'. receive_all e
                 (map (\<lambda>i. InFileChunk tid i (ArrayBuffer (chunk_bytes f i))
                              \<lparr>cm_fileName = fn, cm_totalChunks = n\<rparr>) [0 ..< m]) (x, v) = (x', v)
              \<and> holds_chunks x' tid f n m"
  using assms
proof (induction m)
  case 0
  then show ?case by (simp add: receive_all_def)
next
  case (Suc m)
  from Suc obtain x1 where
    r1: "receive_all e
           (map (\<lambda>i. InFileChunk tid i (ArrayBuffer (chunk_bytes f i))
                        \<lparr>cm_fileName = fn, cm_totalChunks = n\<rparr>) [0 ..< m]) (x, v) = (x1, v)"
    and h1: "holds_chunks x1 tid f n m"
    by auto
  from Suc.prems have "m < max 1 n" by simp
  from receive_chunk_holds [OF h1 this, of e fn v] obtain x2 where
    r2: "receive e (InFileChunk tid m (ArrayBuffer (chunk_bytes f m))
                      \<lparr>cm_fileName = fn, cm_totalChunks = n\<rparr>) (x1, v) = (x2, v)"
    and h2: "holds_chunks x2 tid f n (Suc m)"
    by auto
  have "receive_all e
          (map (\<lambda>i. InFileChunk tid i (ArrayBuffer (chunk_bytes f i))
                       \<lparr>cm_fileName = fn, cm_totalChunks = n\<rparr>) [0 ..< Suc m]) (x, v) = (x2, v)"
    by (simp add: receive_all_append r1) (simp add: receive_all_def r2)
  with h2 show ?case by blast
qed

lemma holds_chunks_concat:
  assumes "holds_chunks x tid f (ceil_div (size_of f) CHUNK_SIZE)
             (max 1 (ceil_div (size_of f) CHUNK_SIZE))"
  shows "map_option totalChunks (transfers x tid) = Some (ceil_div (size_of f) CHUNK_SIZE)
       \<and> map_option concat_received (transfers x tid) = Some (file_bytes f)"
proof -
  let ?n = "ceil_div (size_of f) CHUNK_SIZE"
  from assms obtain t where tr: "transfers x tid = Some t" and tc: "totalChunks t = ?n"
    and lk: "\<forall>j. fmlookup (receivedChunks t) j
                  = (if j < max 1 ?n then Some (ArrayBuffer (chunk_bytes f j)) else None)"
    by (auto simp: holds_chunks_def)
  have eq: "map (\<lambda>i. case fmlookup (receivedChunks t) i of
                        Some (ArrayBuffer b) \<Rightarrow> b | _ \<Rightarrow> []) [0 ..< ?n]
              = map (chunk_bytes f) [0 ..< ?n]"
    using lk by (simp add: max_def)
  have "concat_received t = concat (map (chunk_bytes f) [0 ..< ?n])"
    unfolding concat_received_def tc eq by (rule refl)
  then have "concat_received t = file_bytes f"
    by (simp only: concat_chunk_bytes)
  with tr tc show ?thesis by simp
qed

lemma sent_chunks_append: "sent_chunks (ms @ ns) = sent_chunks ms @ sent_chunks ns"
  by (induction ms rule: sent_chunks.induct) simp_all

lemma sent_chunks_chunk_messages:
  "sent_chunks (concat (map (chunk_messages tid f n rid) is))
     = map (\<lambda>i. (i, ArrayBuffer (chunk_bytes f i))) is"
  by (induction "is") (simp_all add: chunk_messages_def)

lemma chunk_bytes_nth:
  "chunk_bytes f i
     = map ((!) (file_bytes f)) [i * CHUNK_SIZE ..< min ((i + 1) * CHUNK_SIZE) (size_of f)]"
proof -
  have "min (i * CHUNK_SIZE + CHUNK_SIZE) (size_of f) \<le> size_of f" by simp
  from slice_nth [OF this, of "i * CHUNK_SIZE"] show ?thesis
    by (simp add: chunk_bytes_def add.commute)
qed

lemma worker_slices:
  assumes rd: "\<forall>i. reads e i"
  shows "sent_chunks (snd (processFile e fid f rid w))
           = map (\<lambda>i. (i, ArrayBuffer (map ((!) (file_bytes f))
                                          [i * CHUNK_SIZE ..< min ((i + 1) * CHUNK_SIZE) (size_of f)])))
               [0 ..< max 1 (ceil_div (size_of f) CHUNK_SIZE)]"
proof -
  have "sent_chunks (snd (processFile e fid f rid w))
          = map (\<lambda>i. (i, ArrayBuffer (chunk_bytes f i)))
              [0 ..< max 1 (ceil_div (size_of f) CHUNK_SIZE)]"
    unfolding processFile_posts [OF rd]
    by (simp add: sent_chunks_append sent_chunks_chunk_messages)
  then show ?thesis unfolding chunk_bytes_nth .
qed

lemma ceil_div_positive:
  assumes "0 < a" and "0 < b"
  shows "0 < ceil_div a b"
proof (rule ccontr)
  assume "\<not> 0 < ceil_div a b"
  then have "ceil_div a b * b = 0" by simp
  with ceil_div_covers [OF assms(2), of a] assms(1) show False by simp
qed

text \<open>
  What holds of the round trip, whatever carries the messages: a receiver with no worker
  request pending that handles the metadata of a file and then the chunks
  \<open>0, 1, ...\<close> the worker hands over, in this order, ends with a record whose
  \<open>receivedChunks[0..totalChunks)\<close> concatenate to the payload.
\<close>

lemma in_order_roundtrip:
  assumes ridle: "to_worker r = []" and tid: "transferId md = tid"
      and n: "totalChunks md = ceil_div (size_of f) CHUNK_SIZE"
  shows "map_option concat_received
           (transfers
              (fst (receive_all e
                      (InFileMetadata md sid
                       # map (\<lambda>i. InFileChunk tid i (ArrayBuffer (chunk_bytes f i))
                                     \<lparr>cm_fileName = fn,
                                      cm_totalChunks = ceil_div (size_of f) CHUNK_SIZE\<rparr>)
                           [0 ..< max 1 (ceil_div (size_of f) CHUNK_SIZE)])
                      (r, v)))
              tid)
           = Some (file_bytes f)"
proof -
  let ?n = "ceil_div (size_of f) CHUNK_SIZE"
  let ?cs = "map (\<lambda>i. InFileChunk tid i (ArrayBuffer (chunk_bytes f i))
                         \<lparr>cm_fileName = fn, cm_totalChunks = ?n\<rparr>) [0 ..< max 1 ?n]"
  from receive_metadata_holds [OF ridle tid n, of e sid v f] obtain x0 where
    r0: "receive e (InFileMetadata md sid) (r, v) = (x0, v)" and h0: "holds_chunks x0 tid f ?n 0"
    by auto
  from receive_chunks_hold [OF h0 order_refl, of e fn v] obtain x1 where
    r1: "receive_all e ?cs (x0, v) = (x1, v)" and h1: "holds_chunks x1 tid f ?n (max 1 ?n)"
    by auto
  have all: "receive_all e (InFileMetadata md sid # ?cs) (r, v) = (x1, v)"
    using r0 r1 by (simp add: receive_all_def)
  from holds_chunks_concat [OF h1]
  have "map_option concat_received (transfers x1 tid) = Some (file_bytes f)" by simp
  then show ?thesis unfolding all by simp
qed

text \<open>
  C1 at the inputs where it fails. For the empty file the worker computes
  \<open>totalChunks = 0\<close> and still reads and hands over chunk 0 before it compares the
  index with \<open>totalChunks\<close>: one slice where the claim has \<open>totalChunks\<close> slices, and
  a receiver that gets the metadata and this chunk holds one chunk where
  \<open>totalChunks\<close> is 0, and stays \<open>receiving\<close>. For a two-chunk payload
  \<open>b0 @ b1\<close> whose chunk 1 is handled before chunk 0 by a receiver with a worker, the
  record is \<open>complete\<close> after chunk 1, chunk 0 is dropped, and
  \<open>receivedChunks[0..totalChunks)\<close> concatenate to \<open>b1\<close>.
\<close>

theorem empty_file_dispatch:
  "snd (processFile example_env ''f'' (example_file []) ''bob'' Map.empty)
     = [SendMetadata ''f-7'' empty_file_metadata ''bob'',
        SendChunk ''f-7'' 0 (ArrayBuffer []) False ''bob'',
        ProgressUpdate ''f-7'',
        TransferComplete ''f-7'' True]
   \<and> totalChunks empty_file_metadata = 0
   \<and> sent_chunks (snd (processFile example_env ''f'' (example_file []) ''bob'' Map.empty))
       = [(0, ArrayBuffer [])]
   \<and> map_option status (transfers empty_file_receiver ''f-7'') = Some Receiving
   \<and> map_option (\<lambda>t. fmdom (receivedChunks t)) (transfers empty_file_receiver ''f-7'') = Some {|0|}
   \<and> map_option status (transfers (reordered_receiver b0 b1) ''t'') = Some Complete
   \<and> map_option (\<lambda>t. fmdom (receivedChunks t)) (transfers (reordered_receiver b0 b1) ''t'')
       = Some {|1|}
   \<and> map_option concat_received (transfers (reordered_receiver b0 b1) ''t'') = Some b1"
  by (simp add: coordinator_defs plumbing_defs example_defs worker_defs readNextChunk.simps
        concat_received_def upt_conv_Cons)

section \<open>Completion on the sending side\<close>

text \<open>
  C2, as the code has it. For a sending record, an acknowledgement with status
  \<open>received\<close> adds its index to \<open>acknowledgedChunks\<close>, and
  \<open>handleChunkAcknowledgment\<close> sets the status to \<open>complete\<close> and emits the success
  \<open>complete\<close> event exactly when the number of acknowledged indices then equals
  \<open>totalChunks\<close>; otherwise the record stays \<open>sending\<close> and nothing is emitted. When
  every acknowledged index lies below \<open>totalChunks\<close>, that number equals
  \<open>totalChunks\<close> exactly when every index in \<open>[0, totalChunks)\<close> is acknowledged.
  Dispatching a chunk with \<open>sendFileChunk\<close> leaves the record \<open>sending\<close>.
\<close>

theorem ack_completion:
  assumes tr: "transfers s tid = Some t" and st: "status t = Sending"
  shows "map_option acknowledgedChunks (transfers (handleChunkAcknowledgment tid i ''received'' s) tid)
           = Some (finsert i (acknowledgedChunks t))
       \<and> map_option status (transfers (handleChunkAcknowledgment tid i ''received'' s) tid)
           = Some (if fcard (finsert i (acknowledgedChunks t)) = totalChunks t
                   then Complete else Sending)
       \<and> events (handleChunkAcknowledgment tid i ''received'' s)
           = events s @ (if fcard (finsert i (acknowledgedChunks t)) = totalChunks t
                         then [EvComplete tid True] else [])
       \<and> ((\<forall>j. j |\<in>| finsert i (acknowledgedChunks t) \<longrightarrow> j < totalChunks t) \<longrightarrow>
            (fcard (finsert i (acknowledgedChunks t)) = totalChunks t
             \<longleftrightarrow> (\<forall>j<totalChunks t. j |\<in>| finsert i (acknowledgedChunks t))))
       \<and> map_option status (transfers (sendFileChunk tid k c l rid s) tid) = Some Sending"
proof -
  have handled: "map_option acknowledgedChunks (transfers (handleChunkAcknowledgment tid i ''received'' s) tid)
           = Some (finsert i (acknowledgedChunks t))
       \<and> map_option status (transfers (handleChunkAcknowledgment tid i ''received'' s) tid)
           = Some (if fcard (finsert i (acknowledgedChunks t)) = totalChunks t
                   then Complete else Sending)
       \<and> events (handleChunkAcknowledgment tid i ''received'' s)
           = events s @ (if fcard (finsert i (acknowledgedChunks t)) = totalChunks t
                         then [EvComplete tid True] else [])"
    using tr st
    by (auto simp: handleChunkAcknowledgment_def clearTimeout_def emitEvent_def set_transfer_def
          Let_def split: option.splits)
  have ranged: "(\<forall>j. j |\<in>| finsert i (acknowledgedChunks t) \<longrightarrow> j < totalChunks t) \<longrightarrow>
            (fcard (finsert i (acknowledgedChunks t)) = totalChunks t
             \<longleftrightarrow> (\<forall>j<totalChunks t. j |\<in>| finsert i (acknowledgedChunks t)))"
    using fcard_eq_all_below [of "finsert i (acknowledgedChunks t)" "totalChunks t"] by blast
  have dispatched: "map_option status (transfers (sendFileChunk tid k c l rid s) tid) = Some Sending"
    using tr st
    by (simp add: sendFileChunk_def sendUdpMessage_def setTimeout_def set_transfer_def Let_def)
  from handled ranged dispatched show ?thesis by (simp only: simp_thms)
qed

text \<open>The second acknowledgement of the two-chunk example completes the transfer.\<close>

theorem ack_completion_witness:
  "map_option status (transfers (handleChunkAcknowledgment ''t'' 0 ''received'' dispatched_sender) ''t'')
     = Some Sending
   \<and> map_option status
       (transfers (handleChunkAcknowledgment ''t'' 1 ''received''
                     (handleChunkAcknowledgment ''t'' 0 ''received'' dispatched_sender)) ''t'')
     = Some Complete
   \<and> events (handleChunkAcknowledgment ''t'' 1 ''received''
               (handleChunkAcknowledgment ''t'' 0 ''received'' dispatched_sender))
     = [EvComplete ''t'' True]
   \<and> (0::nat) |\<in>| {|1, 0|} \<and> (1::nat) |\<in>| {|1, 0|}"
proof -
  let ?s = "handleChunkAcknowledgment ''t'' 0 ''received'' dispatched_sender"
  let ?t = "the (transfers ?s ''t'')"
  have tr: "transfers ?s ''t'' = Some ?t"
    by (simp add: coordinator_defs plumbing_defs example_defs)
  have st: "status ?t = Sending"
    by (simp add: coordinator_defs plumbing_defs example_defs)
  have ac: "acknowledgedChunks ?t = {|0|}"
    by (simp add: coordinator_defs plumbing_defs example_defs)
  have tc: "totalChunks ?t = 2"
    by (simp add: coordinator_defs plumbing_defs example_defs)
  have ev: "events ?s = []"
    by (simp add: coordinator_defs plumbing_defs example_defs)
  have before: "map_option status (transfers ?s ''t'') = Some Sending"
    by (simp add: coordinator_defs plumbing_defs example_defs)
  have ranged: "\<forall>j. j |\<in>| {|1, 0::nat|} \<longrightarrow> j < 2"
    by auto
  have count: "fcard {|1, 0::nat|} = 2"
    by (simp add: fcard_finsert_if fcard_fempty)
  note inst = ack_completion [OF tr st, of 1, unfolded ac tc]
  from inst
  have after: "map_option status (transfers (handleChunkAcknowledgment ''t'' 1 ''received'' ?s) ''t'')
                 = Some Complete"
    and emitted: "events (handleChunkAcknowledgment ''t'' 1 ''received'' ?s) = [EvComplete ''t'' True]"
    by (simp_all add: ev fcard_finsert_if fcard_fempty)
  from inst ranged count have every: "\<forall>j<2. j |\<in>| {|1, 0::nat|}"
    by blast
  then have zero: "(0::nat) |\<in>| {|1, 0|}" and one: "(1::nat) |\<in>| {|1, 0|}"
    by simp_all
  show ?thesis by (intro conjI before after emitted zero one)
qed

text \<open>
  The claim as written fails. Two acknowledgements for indices outside \<open>[0, 2)\<close> are
  counted like any other: the record is \<open>complete\<close> once the number of acknowledged
  indices is \<open>totalChunks\<close>, with indices 0 and 1 never acknowledged. And after
  \<open>sendFile\<close> of a one-chunk file with nothing acknowledged the success \<open>complete\<close>
  event is already out: the worker posts \<open>transfer-complete\<close> and the main thread
  relays it.
\<close>

theorem complete_without_acks_counterexample:
  "map_option status
       (transfers (handleChunkAcknowledgment ''t'' 8 ''received''
                     (handleChunkAcknowledgment ''t'' 7 ''received'' dispatched_sender)) ''t'')
       = Some Complete
   \<and> map_option acknowledgedChunks
       (transfers (handleChunkAcknowledgment ''t'' 8 ''received''
                     (handleChunkAcknowledgment ''t'' 7 ''received'' dispatched_sender)) ''t'')
       = Some {|8, 7|}
   \<and> events (sent_one_chunk True) = [EvProgress ''f-7'', EvComplete ''f-7'' True]
   \<and> map_option acknowledgedChunks (transfers (sent_one_chunk True) ''f-7'') = Some {||}
   \<and> map_option totalChunks (transfers (sent_one_chunk True) ''f-7'') = Some 1"
  by (simp add: coordinator_defs plumbing_defs example_defs worker_defs readNextChunk.simps)

section \<open>Completion on the receiving side\<close>

text \<open>
  C3, as the code has it. For a receiving record, \<open>handleIncomingFileChunk\<close> stores
  the chunk under its index, and it sets the status to \<open>complete\<close> and emits
  \<open>file-received\<close> (through \<open>assembleFile\<close>) exactly when the number of stored
  indices then equals \<open>totalChunks\<close>; otherwise the handler leaves the record
  \<open>receiving\<close> and emits nothing. When every stored index lies below \<open>totalChunks\<close>,
  that number equals \<open>totalChunks\<close> exactly when every index in \<open>[0, totalChunks)\<close>
  is stored.
\<close>

theorem chunk_completion:
  assumes tr: "transfers s tid = Some t" and st: "status t = Receiving"
  shows "map_option receivedChunks (transfers (handleIncomingFileChunk tid i c cm s) tid)
           = Some (fmupd i c (receivedChunks t))
       \<and> map_option status (transfers (handleIncomingFileChunk tid i c cm s) tid)
           = Some (if fcard (finsert i (fmdom (receivedChunks t))) = totalChunks t
                   then Complete else Receiving)
       \<and> events (handleIncomingFileChunk tid i c cm s)
           = events s @ (if fcard (finsert i (fmdom (receivedChunks t))) = totalChunks t
                         then [EvFileReceived tid (fileName t) (Some (fileType t)) (Some (fileSize t))]
                         else [])
       \<and> ((\<forall>j. j |\<in>| finsert i (fmdom (receivedChunks t)) \<longrightarrow> j < totalChunks t) \<longrightarrow>
            (fcard (finsert i (fmdom (receivedChunks t))) = totalChunks t
             \<longleftrightarrow> (\<forall>j<totalChunks t. j |\<in>| finsert i (fmdom (receivedChunks t)))))"
proof -
  have handled: "map_option receivedChunks (transfers (handleIncomingFileChunk tid i c cm s) tid)
           = Some (fmupd i c (receivedChunks t))
       \<and> map_option status (transfers (handleIncomingFileChunk tid i c cm s) tid)
           = Some (if fcard (finsert i (fmdom (receivedChunks t))) = totalChunks t
                   then Complete else Receiving)
       \<and> events (handleIncomingFileChunk tid i c cm s)
           = events s @ (if fcard (finsert i (fmdom (receivedChunks t))) = totalChunks t
                         then [EvFileReceived tid (fileName t) (Some (fileType t)) (Some (fileSize t))]
                         else [])"
    using tr st
    by (auto simp: handleIncomingFileChunk_def assembleFile_def sendTcpMessage_def
          postToWorker_def emitEvent_def set_transfer_def Let_def)
  have ranged: "(\<forall>j. j |\<in>| finsert i (fmdom (receivedChunks t)) \<longrightarrow> j < totalChunks t) \<longrightarrow>
            (fcard (finsert i (fmdom (receivedChunks t))) = totalChunks t
             \<longleftrightarrow> (\<forall>j<totalChunks t. j |\<in>| finsert i (fmdom (receivedChunks t))))"
    using fcard_eq_all_below [of "finsert i (fmdom (receivedChunks t))" "totalChunks t"] by blast
  from handled ranged show ?thesis by (simp only: simp_thms)
qed

text \<open>Chunk 1 of three arrives at the receiver that holds chunk 0: still receiving.\<close>

theorem chunk_completion_witness:
  "map_option status (transfers buffered_receiver ''t'') = Some Receiving
   \<and> map_option status
       (transfers (handleIncomingFileChunk ''t'' 1 (ArrayBuffer [3]) (example_meta 3) buffered_receiver) ''t'')
     = Some Receiving
   \<and> events (handleIncomingFileChunk ''t'' 1 (ArrayBuffer [3]) (example_meta 3) buffered_receiver)
     = events buffered_receiver
   \<and> (2::nat) |\<notin>| {|1, 0|}"
proof -
  let ?t = "the (transfers buffered_receiver ''t'')"
  have tr: "transfers buffered_receiver ''t'' = Some ?t"
    by (simp add: coordinator_defs plumbing_defs example_defs)
  have st: "status ?t = Receiving"
    by (simp add: coordinator_defs plumbing_defs example_defs)
  have dm: "fmdom (receivedChunks ?t) = {|0|}"
    by (simp add: coordinator_defs plumbing_defs example_defs)
  have tc: "totalChunks ?t = 3"
    by (simp add: coordinator_defs plumbing_defs example_defs)
  have before: "map_option status (transfers buffered_receiver ''t'') = Some Receiving"
    by (simp add: coordinator_defs plumbing_defs example_defs)
  have ranged: "\<forall>j. j |\<in>| {|1, 0::nat|} \<longrightarrow> j < 3"
    by auto
  have count: "fcard {|1, 0::nat|} \<noteq> 3"
    by (simp add: fcard_finsert_if fcard_fempty)
  note inst = chunk_completion [OF tr st, of 1 "ArrayBuffer [3]" "example_meta 3", unfolded dm tc]
  from inst
  have after: "map_option status
                 (transfers (handleIncomingFileChunk ''t'' 1 (ArrayBuffer [3]) (example_meta 3)
                               buffered_receiver) ''t'') = Some Receiving"
    and emitted: "events (handleIncomingFileChunk ''t'' 1 (ArrayBuffer [3]) (example_meta 3)
                            buffered_receiver) = events buffered_receiver"
    by (simp_all add: fcard_finsert_if fcard_fempty)
  from inst ranged count have missing: "\<not> (\<forall>j<3. j |\<in>| {|1, 0::nat|})"
    by blast
  have two: "(2::nat) |\<notin>| {|1, 0|}" by simp
  show ?thesis by (intro conjI before after emitted two)
qed

text \<open>
  The claim as written fails. A chunk with index 5 of a one-chunk transfer is counted
  like any other: the record is \<open>complete\<close> and \<open>file-received\<close> is emitted with
  index 0 missing. And with a worker, the chunk with index \<open>totalChunks - 1 = 2\<close>
  arriving first makes the worker post \<open>receive-complete\<close>, and \<open>completeFileReceive\<close>
  marks the record \<open>complete\<close> while indices 0 and 1 are missing.
\<close>

theorem last_chunk_first_counterexample:
  "map_option status (transfers stray_index_receiver ''t'') = Some Complete
   \<and> map_option (\<lambda>t. fmdom (receivedChunks t)) (transfers stray_index_receiver ''t'') = Some {|5|}
   \<and> events stray_index_receiver
       = [EvIncomingFile ''t'' ''a.txt'' 3 ''text'' ''alice'',
          EvFileReceived ''t'' ''a.txt'' (Some ''text'') (Some 3),
          EvReceiveProgress ''t'']
   \<and> map_option status (transfers last_chunk_first ''t'') = Some Complete
   \<and> map_option (\<lambda>t. fmdom (receivedChunks t)) (transfers last_chunk_first ''t'') = Some {|2|}
   \<and> events last_chunk_first
       = [EvIncomingFile ''t'' ''a.txt'' 150000 ''text'' ''alice'',
          EvReceiveProgress ''t'',
          EvFileReceived ''t'' ''a.txt'' None None]"
  by (simp add: coordinator_defs plumbing_defs example_defs worker_defs)

section \<open>Acknowledged chunks and dispatched chunks\<close>

text \<open>
  C4, as the code has it. \<open>acknowledgedChunks \<subseteq> sentChunks\<close>, for any transfer id \<open>k\<close>,
  is preserved by chunk dispatch (\<open>sendFileChunk\<close>) and by retry (\<open>retryChunk\<close>), and by
  acknowledgement processing (\<open>handleChunkAcknowledgment\<close>) when the acknowledged index
  is in \<open>sentChunks\<close> of the record it names. The code never consults \<open>sentChunks\<close>.
\<close>

theorem ack_subset_sent_preserved:
  assumes inv: "ack_subset_sent s k"
  shows "ack_subset_sent (sendFileChunk tid i c l rid s) k
       \<and> ack_subset_sent (snd (retryChunk tid i rid s)) k
       \<and> ((case transfers s tid of None \<Rightarrow> True | Some t \<Rightarrow> i |\<in>| sentChunks t)
            \<longrightarrow> ack_subset_sent (handleChunkAcknowledgment tid i st s) k)"
  using inv
  by (auto simp: ack_subset_sent_def sendFileChunk_def retryChunk_def handleChunkAcknowledgment_def
        sendUdpMessage_def sendTcpMessage_def setTimeout_def clearTimeout_def emitEvent_def
        set_transfer_def Let_def split: option.splits if_splits)

theorem ack_subset_sent_preserved_witness:
  "ack_subset_sent dispatched_sender ''t''
   \<and> ack_subset_sent (sendFileChunk ''t'' 1 (ArrayBuffer [3]) True ''bob'' dispatched_sender) ''t''
   \<and> ack_subset_sent (snd (retryChunk ''t'' 1 ''bob'' dispatched_sender)) ''t''
   \<and> ack_subset_sent (handleChunkAcknowledgment ''t'' 1 ''received'' dispatched_sender) ''t''"
proof -
  have inv: "ack_subset_sent dispatched_sender ''t''"
    by (simp add: ack_subset_sent_def coordinator_defs plumbing_defs example_defs)
  have sent: "(case transfers dispatched_sender ''t'' of None \<Rightarrow> True | Some t \<Rightarrow> 1 |\<in>| sentChunks t)"
    by (simp add: coordinator_defs plumbing_defs example_defs)
  from ack_subset_sent_preserved [OF inv, of "''t''" 1 "ArrayBuffer [3]" True "''bob''" "''received''"]
    inv sent
  show ?thesis by simp
qed

text \<open>
  The claim as written fails: an acknowledgement for index 0 that arrives before any
  chunk was dispatched is added to \<open>acknowledgedChunks\<close> while \<open>sentChunks\<close> is empty.
\<close>

theorem ack_before_dispatch_counterexample:
  "map_option acknowledgedChunks
     (transfers (handleNetworkMessage (InFileChunkAck ''t'' 0 ''received'')
                   (sendFileMetadata ''t'' (example_metadata 100000 2) ''bob'' (new_manager True True))) ''t'')
     = Some {|0|}
   \<and> map_option sentChunks
     (transfers (handleNetworkMessage (InFileChunkAck ''t'' 0 ''received'')
                   (sendFileMetadata ''t'' (example_metadata 100000 2) ''bob'' (new_manager True True))) ''t'')
     = Some {||}
   \<and> \<not> ack_subset_sent
         (handleNetworkMessage (InFileChunkAck ''t'' 0 ''received'')
            (sendFileMetadata ''t'' (example_metadata 100000 2) ''bob'' (new_manager True True))) ''t''"
  by (simp add: ack_subset_sent_def coordinator_defs plumbing_defs example_defs)

section \<open>Retry of an unacknowledged chunk\<close>

text \<open>
  C5 at the input where it fails. A record is created by \<open>sendFileMetadata\<close> on a
  connected manager, one chunk is dispatched by \<open>sendFileChunk\<close> and never
  acknowledged, and its retry timer (id 1) fires. \<open>retryChunk\<close> throws a TypeError on
  \<open>transfer.chunks[chunkIndex]\<close>: the datagram channel still holds the first dispatch
  only, nothing went out on the reliable channel beside the metadata, and no timer is
  pending, so no later resend happens either.
\<close>

theorem retry_throws:
  "fst (fire_timer 1 (sendFileChunk tid i c l rid (sendFileMetadata tid md rid (new_manager w True))))
     = Some TypeError
   \<and> udp_out (snd (fire_timer 1 (sendFileChunk tid i c l rid (sendFileMetadata tid md rid (new_manager w True)))))
     = [OutFileChunk tid i c l \<lparr>cm_fileName = fileName md, cm_totalChunks = totalChunks md\<rparr> rid]
   \<and> tcp_out (snd (fire_timer 1 (sendFileChunk tid i c l rid (sendFileMetadata tid md rid (new_manager w True)))))
     = [OutFileMetadata md tid rid]
   \<and> timers (snd (fire_timer 1 (sendFileChunk tid i c l rid (sendFileMetadata tid md rid (new_manager w True)))))
     = []"
  by (simp add: coordinator_defs plumbing_defs new_manager_def MAX_RETRY_COUNT_def)

text \<open>
  With the chunks at hand the same function follows the policy of the claim: the timers
  2, 3, 4 and 5 of chunk 1 fire in turn without an acknowledgement, giving three resends
  on the datagram channel and then one on the reliable channel, after which only the
  timer of chunk 0 is pending.
\<close>

lemma retry_policy_with_chunks:
  "udp_out (snd (fire_timer 5 (snd (fire_timer 4 (snd (fire_timer 3 (snd (fire_timer 2 keeping_chunks))))))))
     = udp_out keeping_chunks
       @ replicate 3 (OutFileChunk ''t'' 1 (ArrayBuffer [3]) True (example_meta 2) ''bob'')
   \<and> tcp_out (snd (fire_timer 5 (snd (fire_timer 4 (snd (fire_timer 3 (snd (fire_timer 2 keeping_chunks))))))))
     = tcp_out keeping_chunks
       @ [OutFileChunk ''t'' 1 (ArrayBuffer [3]) True (example_meta 2) ''bob'']
   \<and> timers (snd (fire_timer 5 (snd (fire_timer 4 (snd (fire_timer 3 (snd (fire_timer 2 keeping_chunks))))))))
     = [(1, RETRY_TIMEOUT, RetryChunk ''t'' 0 ''bob'')]"
  by (simp add: coordinator_defs plumbing_defs example_defs MAX_RETRY_COUNT_def
        numeral_3_eq_3)

section \<open>Terminal events\<close>

text \<open>
  C6 at inputs where it fails. A manager with a worker sends a three-byte file (one
  chunk) and the transfer is then cancelled: the worker's \<open>transfer-complete\<close> has
  made the main thread emit \<open>complete\<close>, and \<open>cancelTransfer\<close> emits \<open>cancelled\<close>
  for the same transfer. If instead the acknowledgement of chunk 0 is handled,
  \<open>handleChunkAcknowledgment\<close> emits \<open>complete\<close> a second time. A receiver with a
  worker that handles the metadata and the only chunk of a one-chunk transfer emits
  \<open>file-received\<close> from \<open>assembleFile\<close> and again from \<open>completeFileReceive\<close>.
\<close>

theorem duplicate_terminal_events:
  "events (cancelTransfer ''f-7'' (sent_one_chunk True))
     = [EvProgress ''f-7'', EvComplete ''f-7'' True, EvCancelled ''f-7'']
   \<and> events (handleNetworkMessage (InFileChunkAck ''f-7'' 0 ''received'') (sent_one_chunk True))
     = [EvProgress ''f-7'', EvComplete ''f-7'' True, EvComplete ''f-7'' True]
   \<and> events one_chunk_receiver
     = [EvIncomingFile ''t'' ''a.txt'' 3 ''text'' ''alice'',
        EvFileReceived ''t'' ''a.txt'' (Some ''text'') (Some 3),
        EvReceiveProgress ''t'',
        EvFileReceived ''t'' ''a.txt'' None None]"
  by (simp add: coordinator_defs plumbing_defs example_defs worker_defs readNextChunk.simps)

section \<open>Cancellation\<close>

text \<open>
  C7 at the inputs where it fails. \<open>cancelTransfer\<close> on a record that is already
  \<open>cancelled\<close> or \<open>complete\<close> and still stored sends nothing, but it sets the status
  to \<open>cancelled\<close>, emits a \<open>cancelled\<close> event and schedules one more removal.
\<close>

theorem cancel_again_emits:
  assumes "transfers s tid = Some t" and "status t = Cancelled \<or> status t = Complete"
  shows "events (cancelTransfer tid s) = events s @ [EvCancelled tid]
       \<and> map_option status (transfers (cancelTransfer tid s) tid) = Some Cancelled
       \<and> timers (cancelTransfer tid s) = timers s @ [(Suc (last_timer s), 5000, DeleteTransfer tid)]
       \<and> tcp_out (cancelTransfer tid s) = tcp_out s"
  using assms
  by (auto simp: cancelTransfer_def setTimeout_def emitEvent_def postToWorker_def
        set_transfer_def Let_def)

text \<open>Cancelling the two-chunk sender twice: one cancellation message, two events.\<close>

theorem cancel_again_emits_witness:
  "map_option status (transfers (cancelTransfer ''t'' dispatched_sender) ''t'') = Some Cancelled
   \<and> tcp_out (cancelTransfer ''t'' (cancelTransfer ''t'' dispatched_sender))
       = [OutFileMetadata (example_metadata 100000 2) ''t'' ''bob'', OutFileTransferCancel ''t'' ''bob'']
   \<and> events (cancelTransfer ''t'' (cancelTransfer ''t'' dispatched_sender))
       = [EvCancelled ''t'', EvCancelled ''t'']"
proof -
  let ?s = "cancelTransfer ''t'' dispatched_sender"
  let ?t = "the (transfers ?s ''t'')"
  have tr: "transfers ?s ''t'' = Some ?t"
    by (simp add: coordinator_defs plumbing_defs example_defs)
  have st: "status ?t = Cancelled \<or> status ?t = Complete"
    by (simp add: coordinator_defs plumbing_defs example_defs)
  have before: "map_option status (transfers ?s ''t'') = Some Cancelled"
    by (simp add: coordinator_defs plumbing_defs example_defs)
  have ev: "events ?s = [EvCancelled ''t'']"
    by (simp add: coordinator_defs plumbing_defs example_defs)
  have tcp: "tcp_out ?s = [OutFileMetadata (example_metadata 100000 2) ''t'' ''bob'',
                           OutFileTransferCancel ''t'' ''bob'']"
    by (simp add: coordinator_defs plumbing_defs example_defs)
  from cancel_again_emits [OF tr st]
  have sent: "tcp_out (cancelTransfer ''t'' ?s)
                = [OutFileMetadata (example_metadata 100000 2) ''t'' ''bob'', OutFileTransferCancel ''t'' ''bob'']"
    and emitted: "events (cancelTransfer ''t'' ?s) = [EvCancelled ''t'', EvCancelled ''t'']"
    by (simp_all add: ev tcp)
  show ?thesis by (intro conjI before sent emitted)
qed

section \<open>Worker pool counters\<close>

text \<open>
  C8 at the input where it fails. One task is submitted to a pool of one worker; the
  task throws, so the Worker emits \<open>error\<close> and then \<open>exit\<close> with code 1. Both
  listeners decrement: \<open>activeWorkers\<close> is \<open>-1\<close>.
\<close>

theorem pool_double_decrement:
  "activeWorkers (foldl pool_step (new_pool 1) [Submit task, WorkerError, WorkerExit 1]) = - 1"
  by (simp add: new_pool_def runTask_def processQueue_def on_error_def on_exit_def)

section \<open>Sending to a peer that is not there\<close>

lemma run_worker_append:
  "run_worker e (rs @ qs) p = run_worker e qs (run_worker e rs p)"
proof (induction rs arbitrary: p)
  case Nil
  show ?case by (cases p) simp
next
  case (Cons r rs)
  show ?case by (cases p) (simp add: Cons.IH split_beta)
qed

lemma chunk_messages_keep_sending:
  assumes "map_option status (transfers x tid) = Some Sending"
  shows "map_option status
           (transfers (deliver_worker [SendChunk tid i c l rid, ProgressUpdate tid] x) tid)
           = Some Sending"
  using assms
  by (auto simp: deliver_worker_def worker_onmessage_def sendFileChunk_def sendUdpMessage_def
        setTimeout_def emitEvent_def set_transfer_def Let_def)

lemma readNextChunk_keeps_sending:
  assumes "map_option status (transfers x tid) = Some Sending"
  shows "map_option status
           (transfers (deliver_worker (snd (readNextChunk e tid f k t)) x) tid) = Some Sending"
  using assms
proof (induction e tid f k t arbitrary: x rule: readNextChunk.induct)
  case (1 e tid f chunkIndex transfer)
  let ?c = "ArrayBuffer (slice f (chunkIndex * CHUNK_SIZE)
                           (min (chunkIndex * CHUNK_SIZE + CHUNK_SIZE) (size_of f)))"
  let ?posted = "[SendChunk tid chunkIndex ?c (chunkIndex + 1 = w_totalChunks transfer)
                    (w_receiverId transfer), ProgressUpdate tid]"
  let ?t1 = "transfer\<lparr>w_sentChunks := w_sentChunks transfer + 1\<rparr>"
  have step: "map_option status (transfers (deliver_worker ?posted x) tid) = Some Sending"
    by (rule chunk_messages_keep_sending [OF "1.prems"])
  consider (failed) "\<not> reads e chunkIndex"
    | (aborted) "reads e chunkIndex" "w_status transfer = Aborted"
    | (more) "reads e chunkIndex" "w_status transfer \<noteq> Aborted"
             "chunkIndex + 1 < w_totalChunks transfer"
    | (last) "reads e chunkIndex" "w_status transfer \<noteq> Aborted"
             "\<not> chunkIndex + 1 < w_totalChunks transfer"
    by blast
  then show ?case
  proof cases
    case failed
    then show ?thesis
      using "1.prems"
      by (subst readNextChunk.simps)
         (simp add: Let_def deliver_worker_def worker_onmessage_def emitEvent_def)
  next
    case aborted
    then show ?thesis
      using "1.prems"
      by (subst readNextChunk.simps) (simp add: Let_def deliver_worker_def)
  next
    case more
    have "w_totalChunks ?t1 = w_totalChunks transfer" by simp
    with more have lt: "chunkIndex + 1 < w_totalChunks ?t1" by simp
    have nf: "\<not> \<not> reads e chunkIndex" using more by simp
    have ih: "map_option status
                (transfers (deliver_worker (snd (readNextChunk e tid f (chunkIndex + 1) ?t1))
                              (deliver_worker ?posted x)) tid) = Some Sending"
      by (rule "1.IH" [OF refl refl refl nf more(2) refl refl lt step])
    have out: "snd (readNextChunk e tid f chunkIndex transfer)
                 = ?posted @ snd (readNextChunk e tid f (chunkIndex + 1) ?t1)"
      using more
      by (subst readNextChunk.simps) (simp add: Let_def split_beta)
    show ?thesis
      unfolding out deliver_worker_append by (rule ih)
  next
    case last
    have out: "snd (readNextChunk e tid f chunkIndex transfer)
                 = ?posted @ [TransferComplete tid True]"
      using last
      by (subst readNextChunk.simps) (simp add: Let_def)
    have "map_option status
            (transfers (deliver_worker [TransferComplete tid True] (deliver_worker ?posted x)) tid)
            = Some Sending"
      using step by (simp add: deliver_worker_def worker_onmessage_def emitEvent_def)
    then show ?thesis
      unfolding out deliver_worker_append .
  qed
qed

lemma processFile_keeps_sending:
  "map_option status
     (transfers (deliver_worker (snd (processFile e fid f rid w)) x) (fid @ ''-'' @ now e))
     = Some Sending"
proof -
  let ?tid = "fid @ ''-'' @ now e"
  let ?md = "\<lparr>transferId = ?tid, fileId = fid, fileName = file_name f,
              fileType = file_type f, fileSize = size_of f,
              totalChunks = ceil_div (size_of f) CHUNK_SIZE, timestamp = stamp e\<rparr>"
  let ?t0 = "\<lparr>w_fileId = fid, w_fileName = file_name f, w_fileType = file_type f,
              w_fileSize = size_of f, w_receiverId = rid,
              w_totalChunks = ceil_div (size_of f) CHUNK_SIZE,
              w_sentChunks = 0, w_status = Processing\<rparr>"
  have out: "snd (processFile e fid f rid w)
               = [SendMetadata ?tid ?md rid] @ snd (readNextChunk e ?tid f 0 ?t0)"
    by (simp add: processFile_def readFileChunks_def Let_def split_beta)
  have stored: "map_option status
                  (transfers (deliver_worker [SendMetadata ?tid ?md rid] x) ?tid) = Some Sending"
    by (simp add: deliver_worker_def worker_onmessage_def sendFileMetadata_def
          sendTcpMessage_def set_transfer_def)
  show ?thesis
    unfolding out deliver_worker_append
    by (rule readNextChunk_keeps_sending [OF stored])
qed

text \<open>
  C9, as the code has it. Neither the coordinator nor the network manager resolves the
  destination: no function takes a peer directory, and the receiver id only travels in
  the message and the record. For every state of a manager with a transfer worker,
  every receiver id and every outcome of the reads, \<open>sendFile\<close> creates a record and
  leaves it \<open>sending\<close>. The reliable send returns whether the sender itself is
  connected: \<open>true\<close>, with the message handed to the socket, or \<open>false\<close>, with nothing
  sent; \<open>sendFileMetadata\<close> ignores the result, emits no event and stores the record
  with status \<open>sending\<close> either way.
\<close>

theorem send_ignores_peer:
  assumes wk: "transferWorker s"
  shows "map_option status
           (transfers (fst (pump e (snd (sendFile fid f rid s), w))) (fid @ ''-'' @ now e))
           = Some Sending
       \<and> sendTcpMessage m s = (connected s, if connected s then s\<lparr>tcp_out := tcp_out s @ [m]\<rparr> else s)
       \<and> map_option status (transfers (sendFileMetadata tid md rid s) tid) = Some Sending
       \<and> tcp_out (sendFileMetadata tid md rid s)
           = tcp_out s @ (if connected s then [OutFileMetadata md tid rid] else [])
       \<and> events (sendFileMetadata tid md rid s) = events s"
proof -
  let ?x0 = "(postToWorker (ProcessFile fid f rid) s)\<lparr>to_worker := []\<rparr>"
  obtain x1 w1 where before: "run_worker e (to_worker s) (?x0, w) = (x1, w1)"
    by (cases "run_worker e (to_worker s) (?x0, w)") blast
  have "pump e (snd (sendFile fid f rid s), w)
          = run_worker e [ProcessFile fid f rid] (run_worker e (to_worker s) (?x0, w))"
    using wk by (simp add: pump_def sendFile_def postToWorker_def run_worker_append)
  then have "fst (pump e (snd (sendFile fid f rid s), w))
               = deliver_worker (snd (processFile e fid f rid w1)) x1"
    by (simp add: before worker_handle_def split_beta)
  then have created: "map_option status
           (transfers (fst (pump e (snd (sendFile fid f rid s), w))) (fid @ ''-'' @ now e))
           = Some Sending"
    by (simp only: processFile_keeps_sending)
  have sent: "sendTcpMessage m s
                = (connected s, if connected s then s\<lparr>tcp_out := tcp_out s @ [m]\<rparr> else s)"
    by (simp add: sendTcpMessage_def)
  have stored: "map_option status (transfers (sendFileMetadata tid md rid s) tid) = Some Sending"
    and out: "tcp_out (sendFileMetadata tid md rid s)
                = tcp_out s @ (if connected s then [OutFileMetadata md tid rid] else [])"
    and quiet: "events (sendFileMetadata tid md rid s) = events s"
    by (simp_all add: sendFileMetadata_def sendTcpMessage_def set_transfer_def)
  show ?thesis by (intro conjI created sent stored out quiet)
qed

text \<open>A connected manager with a worker sends the three-byte file to \<open>bob\<close>.\<close>

theorem send_ignores_peer_witness:
  "transferWorker (new_manager True True)
   \<and> map_option status (transfers (sent_one_chunk True) ''f-7'') = Some Sending
   \<and> fst (sendTcpMessage (OutFileMetadata (example_metadata 150000 3) ''t'' ''bob'')
            (new_manager True True))
   \<and> tcp_out (sendFileMetadata ''t'' (example_metadata 150000 3) ''bob'' (new_manager True True))
       = [OutFileMetadata (example_metadata 150000 3) ''t'' ''bob'']"
proof -
  have wk: "transferWorker (new_manager True True)" by (simp add: new_manager_def)
  have nm: "''f'' @ ''-'' @ now example_env = ''f-7''" by (simp add: example_env_def)
  from send_ignores_peer [OF wk, where e = example_env and fid = "''f''"
         and f = "example_file [1, 2, 3]" and rid = "''bob''" and w = Map.empty
         and m = "OutFileMetadata (example_metadata 150000 3) ''t'' ''bob''"
         and tid = "''t''" and md = "example_metadata 150000 3"]
  have created: "map_option status (transfers (sent_one_chunk True) ''f-7'') = Some Sending"
    and sent: "fst (sendTcpMessage (OutFileMetadata (example_metadata 150000 3) ''t'' ''bob'')
                      (new_manager True True))"
    and out: "tcp_out (sendFileMetadata ''t'' (example_metadata 150000 3) ''bob'' (new_manager True True))
                = [OutFileMetadata (example_metadata 150000 3) ''t'' ''bob'']"
    unfolding nm sent_one_chunk_def sender_done_def by (simp_all add: new_manager_def)
  show ?thesis by (intro conjI wk created sent out)
qed

text \<open>
  The claim as written fails. A connected manager with a worker sends a file to a
  receiver id nobody resolves: the metadata goes out, the record is \<open>sending\<close>, and no
  \<open>error\<close> event is emitted. The same manager without a connection: nothing goes out
  and the record is \<open>sending\<close> all the same. A manager without a worker: \<open>sendFile\<close>
  creates no record.
\<close>

theorem unreachable_peer_counterexample:
  "map_option status (transfers (sent_one_chunk True) ''f-7'') = Some Sending
   \<and> length (tcp_out (sent_one_chunk True)) = 1
   \<and> events (sent_one_chunk True) = [EvProgress ''f-7'', EvComplete ''f-7'' True]
   \<and> map_option status (transfers (sent_one_chunk False) ''f-7'') = Some Sending
   \<and> tcp_out (sent_one_chunk False) = []
   \<and> events (sent_one_chunk False) = [EvProgress ''f-7'', EvComplete ''f-7'' True]
   \<and> transfers (fst (pump example_env
                        (snd (sendFile ''f'' (example_file [1, 2, 3]) ''bob'' (new_manager False True)),
                         Map.empty))) ''f-7'' = None"
  by (simp add: coordinator_defs plumbing_defs example_defs worker_defs readNextChunk.simps)

section \<open>Metadata for a transfer that is already being received\<close>

text \<open>
  C10. When a file-metadata message names the transfer id of a stored receiving record,
  the stored record is replaced, whatever it held, by a fresh receiving record built
  from the new metadata and sender id, with no buffered chunk; every other transfer is
  left alone; an \<open>incoming-file\<close> event is emitted; and the metadata is acknowledged on
  the reliable channel when the manager is connected.
\<close>

theorem metadata_replaces_record:
  assumes "transfers s (transferId md) = Some t" and "status t = Receiving"
  shows "transfers (handleNetworkMessage (InFileMetadata md sid) s)
           = (transfers s)(transferId md \<mapsto>
               \<lparr>transferId = transferId md, fileId = fileId md, fileName = fileName md,
                fileType = fileType md, fileSize = fileSize md, totalChunks = totalChunks md,
                timestamp = timestamp md,
                status = Receiving, receiverId = [], sentChunks = {||},
                acknowledgedChunks = {||}, retries = fmempty,
                senderId = sid, receivedChunks = fmempty, missingChunks = {||},
                chunks = None\<rparr>)
       \<and> map_option receivedChunks
           (transfers (handleNetworkMessage (InFileMetadata md sid) s) (transferId md)) = Some fmempty
       \<and> map_option status
           (transfers (handleNetworkMessage (InFileMetadata md sid) s) (transferId md)) = Some Receiving
       \<and> events (handleNetworkMessage (InFileMetadata md sid) s)
           = events s @ [EvIncomingFile (transferId md) (fileName md) (fileSize md) (fileType md) sid]
       \<and> tcp_out (handleNetworkMessage (InFileMetadata md sid) s)
           = tcp_out s @ (if connected s then [OutFileMetadataAck (transferId md) sid] else [])
       \<and> udp_out (handleNetworkMessage (InFileMetadata md sid) s) = udp_out s
       \<and> timers (handleNetworkMessage (InFileMetadata md sid) s) = timers s
       \<and> to_worker (handleNetworkMessage (InFileMetadata md sid) s) = to_worker s"
  by (simp add: handleNetworkMessage_def handleIncomingFileMetadata_def sendTcpMessage_def
        emitEvent_def set_transfer_def Let_def)

text \<open>
  The receiver that holds chunk 0 gets metadata for the same transfer id from another
  sender, with another file name, size and chunk count.
\<close>

theorem metadata_replaces_record_witness:
  "map_option (\<lambda>t. fmlookup (receivedChunks t) 0) (transfers buffered_receiver ''t'')
     = Some (Some (ArrayBuffer [1, 2]))
   \<and> map_option status (transfers buffered_receiver ''t'') = Some Receiving
   \<and> transfers (handleNetworkMessage (InFileMetadata replacing_metadata ''carol'') buffered_receiver) ''t''
     = Some \<lparr>transferId = ''t'', fileId = ''g'', fileName = ''b.txt'', fileType = ''text'',
             fileSize = 70000, totalChunks = 2, timestamp = 9,
             status = Receiving, receiverId = [], sentChunks = {||},
             acknowledgedChunks = {||}, retries = fmempty,
             senderId = ''carol'', receivedChunks = fmempty, missingChunks = {||},
             chunks = None\<rparr>
   \<and> events (handleNetworkMessage (InFileMetadata replacing_metadata ''carol'') buffered_receiver)
     = [EvIncomingFile ''t'' ''a.txt'' 150000 ''text'' ''alice'',
        EvIncomingFile ''t'' ''b.txt'' 70000 ''text'' ''carol'']
   \<and> tcp_out (handleNetworkMessage (InFileMetadata replacing_metadata ''carol'') buffered_receiver)
     = tcp_out buffered_receiver @ [OutFileMetadataAck ''t'' ''carol'']"
proof -
  let ?t = "the (transfers buffered_receiver ''t'')"
  have id: "transferId replacing_metadata = ''t''" by (simp add: replacing_metadata_def)
  have tr: "transfers buffered_receiver (transferId replacing_metadata) = Some ?t"
    by (simp add: coordinator_defs plumbing_defs example_defs replacing_metadata_def)
  have st: "status ?t = Receiving"
    by (simp add: coordinator_defs plumbing_defs example_defs)
  have held: "map_option (\<lambda>t. fmlookup (receivedChunks t) 0) (transfers buffered_receiver ''t'')
                = Some (Some (ArrayBuffer [1, 2]))"
    by (simp add: coordinator_defs plumbing_defs example_defs)
  have before: "map_option status (transfers buffered_receiver ''t'') = Some Receiving"
    by (simp add: coordinator_defs plumbing_defs example_defs)
  have ev: "events buffered_receiver = [EvIncomingFile ''t'' ''a.txt'' 150000 ''text'' ''alice'']"
    by (simp add: coordinator_defs plumbing_defs example_defs)
  have cn: "connected buffered_receiver"
    by (simp add: coordinator_defs plumbing_defs example_defs)
  from metadata_replaces_record [OF tr st, of "''carol''"]
  have replaced:
    "transfers (handleNetworkMessage (InFileMetadata replacing_metadata ''carol'') buffered_receiver) ''t''
     = Some \<lparr>transferId = ''t'', fileId = ''g'', fileName = ''b.txt'', fileType = ''text'',
             fileSize = 70000, totalChunks = 2, timestamp = 9,
             status = Receiving, receiverId = [], sentChunks = {||},
             acknowledgedChunks = {||}, retries = fmempty,
             senderId = ''carol'', receivedChunks = fmempty, missingChunks = {||},
             chunks = None\<rparr>"
    and emitted:
    "events (handleNetworkMessage (InFileMetadata replacing_metadata ''carol'') buffered_receiver)
     = [EvIncomingFile ''t'' ''a.txt'' 150000 ''text'' ''alice'',
        EvIncomingFile ''t'' ''b.txt'' 70000 ''text'' ''carol'']"
    and acked:
    "tcp_out (handleNetworkMessage (InFileMetadata replacing_metadata ''carol'') buffered_receiver)
     = tcp_out buffered_receiver @ [OutFileMetadataAck ''t'' ''carol'']"
    by (simp_all add: ev cn replacing_metadata_def)
  show ?thesis by (intro conjI held before replaced emitted acked)
qed

end
